theory Spec2Isabelle
  imports Main "HOL-Library.Log_Nat"
begin

section \<open>Python values used by \<^verbatim>\<open>tif_merge.py\<close>\<close>

subsection \<open>Exceptions and results\<close>

text \<open>
  Every way in which the modelled code can stop early is a value. \<open>SystemExit\<close> stands for
  \<^verbatim>\<open>sys.exit(1)\<close>; \<open>RasterIOError\<close> stands for a GDAL raster read or write that is refused
  (the bindings then hand back \<^verbatim>\<open>None\<close> and the next numpy or GDAL call on it fails);
  \<open>AttributeError\<close> is what Python raises when a method is called on the \<^verbatim>\<open>None\<close> that
  \<^verbatim>\<open>GetRasterBand\<close> returns for a band that does not exist.
\<close>

datatype error =
    ZeroDivisionError
  | IndexError
  | AttributeError
  | UnboundLocalError
  | SystemExit
  | RasterIOError
  | DriverError

datatype 'a result = Return 'a | Raise error

definition bindr :: "'a result \<Rightarrow> ('a \<Rightarrow> 'b result) \<Rightarrow> 'b result" where
  "bindr r f = (case r of Raise e \<Rightarrow> Raise e | Return v \<Rightarrow> f v)"

subsection \<open>Floats: IEEE binary64 with round-to-nearest-even\<close>

text \<open>
  A finite Python float is a rational number with a 53-bit significand. Each arithmetic
  operation computes the exact rational result and rounds it to the nearest such number,
  ties to the even significand (\<open>rnd\<close>). The exponent range is not modelled: overflow to
  infinity and gradual underflow only happen beyond \<open>1e308\<close> and below \<open>1e-308\<close>, and
  infinities and NaN never appear as coordinates here.
\<close>

type_synonym pyfloat = rat

definition pow2 :: "int \<Rightarrow> rat" where
  "pow2 e = (if 0 \<le> e then 2 ^ nat e else 1 / 2 ^ nat (- e))"

definition round_half_even :: "rat \<Rightarrow> int" where
  "round_half_even x =
     (let f = \<lfloor>x\<rfloor>; d = x - of_int f
      in if d < 1 / 2 then f
         else if 1 / 2 < d then f + 1
         else if even f then f else f + 1)"

text \<open>\<open>expo x\<close> is the binary exponent \<open>e\<close> of a nonzero \<open>x\<close>: \<open>2^e \<le> \<bar>x\<bar> < 2^(e+1)\<close>.\<close>

definition expo :: "rat \<Rightarrow> int" where
  "expo x =
     (if 1 \<le> \<bar>x\<bar> then bitlen \<lfloor>\<bar>x\<bar>\<rfloor> - 1
      else - bitlen (\<lceil>1 / \<bar>x\<bar>\<rceil> - 1))"

definition rnd :: "rat \<Rightarrow> pyfloat" where
  "rnd x =
     (if x = 0 then 0
      else let q = pow2 (expo x - 52) in of_int (round_half_even (x / q)) * q)"

definition fadd :: "pyfloat \<Rightarrow> pyfloat \<Rightarrow> pyfloat" where
  "fadd a b = rnd (a + b)"

definition fsub :: "pyfloat \<Rightarrow> pyfloat \<Rightarrow> pyfloat" where
  "fsub a b = rnd (a - b)"

definition fmul :: "pyfloat \<Rightarrow> pyfloat \<Rightarrow> pyfloat" where
  "fmul a b = rnd (a * b)"

text \<open>Float division raises \<^verbatim>\<open>ZeroDivisionError\<close> on a zero divisor.\<close>

definition fdiv :: "pyfloat \<Rightarrow> pyfloat \<Rightarrow> pyfloat result" where
  "fdiv a b = (if b = 0 then Raise ZeroDivisionError else Return (rnd (a / b)))"

text \<open>An \<^verbatim>\<open>int\<close> operand of a float operation is converted first.\<close>

definition float_of_int :: "int \<Rightarrow> pyfloat" where
  "float_of_int n = rnd (of_int n)"

text \<open>\<^verbatim>\<open>int(x)\<close> truncates toward zero; \<^verbatim>\<open>math.floor\<close> and \<^verbatim>\<open>math.ceil\<close> return ints.\<close>

definition py_int :: "pyfloat \<Rightarrow> int" where
  "py_int x = (if 0 \<le> x then \<lfloor>x\<rfloor> else \<lceil>x\<rceil>)"

definition math_floor :: "pyfloat \<Rightarrow> int" where
  "math_floor x = \<lfloor>x\<rfloor>"

definition math_ceil :: "pyfloat \<Rightarrow> int" where
  "math_ceil x = \<lceil>x\<rceil>"

text \<open>The literals \<^verbatim>\<open>0.1\<close> and \<^verbatim>\<open>0.5\<close>; the second is exact.\<close>

definition lit_0_1 :: pyfloat where
  "lit_0_1 = rnd (1 / 10)"

definition lit_0_5 :: pyfloat where
  "lit_0_5 = 1 / 2"

section \<open>The GDAL objects the code works on\<close>

text \<open>
  GDAL itself is outside the repository. Its datasets are modelled as far as the code
  looks at them: raster size, geotransform, projection, and per band the data type, the
  mask flags, the colour interpretation, the colour table, the samples and the samples
  of the mask band. Samples are numbers or NaN; conversion between band data types on
  reading and writing is not modelled. Arrays are lists of rows.
\<close>

datatype sample = Num rat | NaN

type_synonym ndarray = "sample list list"

type_synonym colortable = "(nat \<times> nat \<times> nat \<times> nat) list"

text \<open>The six coefficients \<^verbatim>\<open>geotransform[0]\<close> .. \<^verbatim>\<open>geotransform[5]\<close>.\<close>

record geo_transform =
  gt0 :: pyfloat
  gt1 :: pyfloat
  gt2 :: pyfloat
  gt3 :: pyfloat
  gt4 :: pyfloat
  gt5 :: pyfloat

record band =
  DataType :: nat
  MaskFlags :: nat
  ColorInterpretation :: nat
  ColorTable :: "colortable option"
  pixels :: ndarray
  mask_pixels :: ndarray

record dataset =
  RasterXSize :: int
  RasterYSize :: int
  GeoTransform :: geo_transform
  Projection :: string
  raster_bands :: "band list"

definition GMF_ALL_VALID :: nat where
  "GMF_ALL_VALID = 1"

definition GCI_AlphaBand :: nat where
  "GCI_AlphaBand = 6"

text \<open>
  A dataset handle is the name the dataset is stored under; a band object refers to a
  band of a dataset (numbered from 1) or to the mask band of one.
\<close>

datatype band_ref = RasterBand string nat | MaskBand string nat

datatype strategy = Plain | WithNodata | WithMask

text \<open>
  The trace records, in order, which copy routine was entered and every raster window
  that was read or written. It is not part of the program; it makes "no read or write
  happens" and "this routine is never reached" statable.
\<close>

datatype event =
    Enter strategy
  | ReadWindow band_ref int int int int
  | WriteWindow band_ref int int int int

text \<open>
  \<open>files\<close> is what \<^verbatim>\<open>gdal.Open\<close> finds. \<open>driver_error\<close> is the outcome of choosing the
  output driver for a name (\<^verbatim>\<open>GetOutputDriverFor\<close>, \<^verbatim>\<open>GetDriverByName\<close> and the
  \<^verbatim>\<open>DCAP_CREATE\<close> test, lines 330-341), \<open>create_refused\<close> says for which names
  \<^verbatim>\<open>Driver.Create\<close> returns \<^verbatim>\<open>None\<close> whatever the size.
\<close>

record gdal_state =
  files :: "string \<Rightarrow> dataset option"
  trace :: "event list"
  driver_error :: "string \<Rightarrow> error option"
  create_refused :: "string \<Rightarrow> bool"

definition log_event :: "event \<Rightarrow> gdal_state \<Rightarrow> gdal_state" where
  "log_event e st = st\<lparr>trace := trace st @ [e]\<rparr>"

text \<open>
  \<^verbatim>\<open>fh.GetRasterBand(n)\<close>: the band object together with the band's attributes, or \<open>None\<close>.
\<close>

definition GetRasterBand :: "gdal_state \<Rightarrow> string \<Rightarrow> nat \<Rightarrow> (band_ref \<times> band) option" where
  "GetRasterBand st fh n =
     (case files st fh of
        None \<Rightarrow> None
      | Some ds \<Rightarrow>
          if 1 \<le> n \<and> n \<le> length (raster_bands ds)
          then Some (RasterBand fh n, raster_bands ds ! (n - 1))
          else None)"

text \<open>The dataset a band object belongs to and the samples it gives access to.\<close>

definition band_samples :: "gdal_state \<Rightarrow> band_ref \<Rightarrow> (dataset \<times> ndarray) option" where
  "band_samples st r =
     (case r of
        RasterBand fh n \<Rightarrow>
          (case GetRasterBand st fh n of
             None \<Rightarrow> None
           | Some (_, b) \<Rightarrow> Some (the (files st fh), pixels b))
      | MaskBand fh n \<Rightarrow>
          (case GetRasterBand st fh n of
             None \<Rightarrow> None
           | Some (_, b) \<Rightarrow> Some (the (files st fh), mask_pixels b)))"

definition window_ok :: "dataset \<Rightarrow> int \<Rightarrow> int \<Rightarrow> int \<Rightarrow> int \<Rightarrow> bool" where
  "window_ok ds xoff yoff xsize ysize =
     (0 \<le> xoff \<and> 0 \<le> yoff \<and> 1 \<le> xsize \<and> 1 \<le> ysize \<and>
      xoff + xsize \<le> RasterXSize ds \<and> yoff + ysize \<le> RasterYSize ds)"

text \<open>
  Reading a window of \<open>n\<close> pixels into a buffer of \<open>b\<close> pixels takes, for buffer index
  \<open>i\<close>, the pixel under the centre of buffer cell \<open>i\<close> (nearest neighbour, GDAL's default).
  For \<open>n = b\<close> this is the identity.
\<close>

definition resample :: "int \<Rightarrow> int \<Rightarrow> int \<Rightarrow> int" where
  "resample n b i = ((2 * i + 1) * n) div (2 * b)"

definition read_window ::
  "ndarray \<Rightarrow> int \<Rightarrow> int \<Rightarrow> int \<Rightarrow> int \<Rightarrow> int \<Rightarrow> int \<Rightarrow> ndarray" where
  "read_window px xoff yoff xsize ysize buf_xsize buf_ysize =
     map (\<lambda>j. map (\<lambda>i. px ! nat (yoff + resample ysize buf_ysize (int j))
                          ! nat (xoff + resample xsize buf_xsize (int i)))
                 [0..<nat buf_xsize])
         [0..<nat buf_ysize]"

definition write_window ::
  "ndarray \<Rightarrow> int \<Rightarrow> int \<Rightarrow> ndarray \<Rightarrow> int \<Rightarrow> int \<Rightarrow> int \<Rightarrow> int \<Rightarrow> ndarray" where
  "write_window px width height arr xoff yoff xsize ysize =
     map (\<lambda>y. map (\<lambda>x. if xoff \<le> int x \<and> int x < xoff + xsize \<and>
                          yoff \<le> int y \<and> int y < yoff + ysize
                       then arr ! nat (int y - yoff) ! nat (int x - xoff)
                       else px ! y ! x)
                 [0..<nat width])
         [0..<nat height]"

text \<open>\<^verbatim>\<open>band.ReadAsArray(xoff, yoff, xsize, ysize, buf_xsize, buf_ysize)\<close>.\<close>

definition ReadAsArray ::
  "band_ref \<Rightarrow> int \<Rightarrow> int \<Rightarrow> int \<Rightarrow> int \<Rightarrow> int \<Rightarrow> int \<Rightarrow> gdal_state
     \<Rightarrow> ndarray result \<times> gdal_state" where
  "ReadAsArray b xoff yoff xsize ysize buf_xsize buf_ysize st =
     (let st' = log_event (ReadWindow b xoff yoff xsize ysize) st
      in case band_samples st b of
           None \<Rightarrow> (Raise RasterIOError, st')
         | Some (ds, px) \<Rightarrow>
             if window_ok ds xoff yoff xsize ysize \<and> 1 \<le> buf_xsize \<and> 1 \<le> buf_ysize
             then (Return (read_window px xoff yoff xsize ysize buf_xsize buf_ysize), st')
             else (Raise RasterIOError, st'))"

text \<open>
  \<^verbatim>\<open>band.ReadRaster(xoff, yoff, xsize, ysize, buf_xsize, buf_ysize, buf_type)\<close>: the same
  window as a byte buffer; the model keeps the samples and ignores \<open>buf_type\<close>.
\<close>

definition ReadRaster ::
  "band_ref \<Rightarrow> int \<Rightarrow> int \<Rightarrow> int \<Rightarrow> int \<Rightarrow> int \<Rightarrow> int \<Rightarrow> nat \<Rightarrow> gdal_state
     \<Rightarrow> ndarray result \<times> gdal_state" where
  "ReadRaster b xoff yoff xsize ysize buf_xsize buf_ysize buf_type st =
     ReadAsArray b xoff yoff xsize ysize buf_xsize buf_ysize st"

text \<open>Replacing the samples a band object gives access to.\<close>

definition store_samples :: "band_ref \<Rightarrow> ndarray \<Rightarrow> gdal_state \<Rightarrow> gdal_state" where
  "store_samples r px st =
     (case r of
        RasterBand fh n \<Rightarrow>
          (case files st fh of
             None \<Rightarrow> st
           | Some ds \<Rightarrow>
               st\<lparr>files := (files st)(fh \<mapsto>
                     ds\<lparr>raster_bands :=
                          (raster_bands ds)[n - 1 := (raster_bands ds ! (n - 1))\<lparr>pixels := px\<rparr>]\<rparr>)\<rparr>)
      | MaskBand fh n \<Rightarrow>
          (case files st fh of
             None \<Rightarrow> st
           | Some ds \<Rightarrow>
               st\<lparr>files := (files st)(fh \<mapsto>
                     ds\<lparr>raster_bands :=
                          (raster_bands ds)[n - 1 :=
                             (raster_bands ds ! (n - 1))\<lparr>mask_pixels := px\<rparr>]\<rparr>)\<rparr>))"

text \<open>
  \<^verbatim>\<open>band.WriteRaster(xoff, yoff, xsize, ysize, data, buf_xsize, buf_ysize, buf_type)\<close> as the
  code calls it, with the buffer as large as the window.
\<close>

definition WriteRaster ::
  "band_ref \<Rightarrow> int \<Rightarrow> int \<Rightarrow> int \<Rightarrow> int \<Rightarrow> ndarray \<Rightarrow> gdal_state \<Rightarrow> unit result \<times> gdal_state" where
  "WriteRaster b xoff yoff xsize ysize data st =
     (let st' = log_event (WriteWindow b xoff yoff xsize ysize) st
      in case band_samples st b of
           None \<Rightarrow> (Raise RasterIOError, st')
         | Some (ds, px) \<Rightarrow>
             if window_ok ds xoff yoff xsize ysize
             then (Return (),
                   store_samples b
                     (write_window px (RasterXSize ds) (RasterYSize ds) data xoff yoff xsize ysize)
                     st')
             else (Raise RasterIOError, st'))"

text \<open>\<^verbatim>\<open>band.WriteArray(array, xoff, yoff)\<close>: the window has the shape of the array.\<close>

definition WriteArray ::
  "band_ref \<Rightarrow> ndarray \<Rightarrow> int \<Rightarrow> int \<Rightarrow> gdal_state \<Rightarrow> unit result \<times> gdal_state" where
  "WriteArray b array xoff yoff st =
     WriteRaster b xoff yoff
       (case array of [] \<Rightarrow> 0 | r # _ \<Rightarrow> int (length r)) (int (length array)) array st"

text \<open>
  \<^verbatim>\<open>Driver.Create(name, xsize, ysize, bands, band_type, options)\<close>: \<open>None\<close> when it returns
  \<^verbatim>\<open>None\<close> (GDAL refuses a raster with a side below one pixel), otherwise the state with
  the new dataset, every band zero-filled and fully valid.
\<close>

definition new_band :: "nat \<Rightarrow> int \<Rightarrow> int \<Rightarrow> band" where
  "new_band dt w h =
     \<lparr>DataType = dt, MaskFlags = GMF_ALL_VALID, ColorInterpretation = 0, ColorTable = None,
      pixels = replicate (nat h) (replicate (nat w) (Num 0)),
      mask_pixels = replicate (nat h) (replicate (nat w) (Num 255))\<rparr>"

definition Driver_Create ::
  "string \<Rightarrow> int \<Rightarrow> int \<Rightarrow> nat \<Rightarrow> nat \<Rightarrow> gdal_state \<Rightarrow> gdal_state option" where
  "Driver_Create name w h nbands dt st =
     (if w < 1 \<or> h < 1 \<or> create_refused st name then None
      else Some (st\<lparr>files := (files st)(name \<mapsto>
                  \<lparr>RasterXSize = w, RasterYSize = h,
                   GeoTransform = \<lparr>gt0 = 0, gt1 = 1, gt2 = 0, gt3 = 0, gt4 = 0, gt5 = 1\<rparr>,
                   Projection = [],
                   raster_bands = replicate nbands (new_band dt w h)\<rparr>)\<rparr>))"

definition SetGeoTransform :: "string \<Rightarrow> geo_transform \<Rightarrow> gdal_state \<Rightarrow> gdal_state" where
  "SetGeoTransform fh g st =
     (case files st fh of
        None \<Rightarrow> st
      | Some ds \<Rightarrow> st\<lparr>files := (files st)(fh \<mapsto> ds\<lparr>GeoTransform := g\<rparr>)\<rparr>)"

definition SetProjection :: "string \<Rightarrow> string \<Rightarrow> gdal_state \<Rightarrow> gdal_state" where
  "SetProjection fh p st =
     (case files st fh of
        None \<Rightarrow> st
      | Some ds \<Rightarrow> st\<lparr>files := (files st)(fh \<mapsto> ds\<lparr>Projection := p\<rparr>)\<rparr>)"



definition has_shape :: "'a list list \<Rightarrow> nat \<Rightarrow> nat \<Rightarrow> bool" where
  "has_shape a h w = (length a = h \<and> (\<forall>r\<in>set a. length r = w))"

subsection \<open>The numpy operations of the composites\<close>

definition np_isnan :: "sample \<Rightarrow> bool" where
  "np_isnan v = (v = NaN)"

text \<open>\<^verbatim>\<open>==\<close> on samples: NaN equals nothing, not even itself.\<close>

definition sample_eq :: "sample \<Rightarrow> sample \<Rightarrow> bool" where
  "sample_eq a b = (a \<noteq> NaN \<and> b \<noteq> NaN \<and> a = b)"

definition np_equal :: "ndarray \<Rightarrow> sample \<Rightarrow> bool list list" where
  "np_equal a v = map (map (\<lambda>s. sample_eq s v)) a"

definition np_isnan_array :: "ndarray \<Rightarrow> bool list list" where
  "np_isnan_array a = map (map np_isnan) a"

text \<open>
  \<^verbatim>\<open>choose(test, (a0, a1))\<close>: element by element, \<open>a0\<close> where the test is false (index 0)
  and \<open>a1\<close> where it is true (index 1).
\<close>

definition np_choose :: "bool list list \<Rightarrow> ndarray \<times> ndarray \<Rightarrow> ndarray" where
  "np_choose test choices =
     map (\<lambda>(trow, row0, row1). map (\<lambda>(t, v0, v1). if t then v1 else v0) (zip trow (zip row0 row1)))
         (zip test (zip (fst choices) (snd choices)))"

section \<open>The raster copy engine (lines 67-160)\<close>

text \<open>The test of lines 124-127, which the code keeps in the local \<^verbatim>\<open>nodata_test\<close>.\<close>

definition nodata_test :: "sample \<Rightarrow> ndarray \<Rightarrow> bool list list" where
  "nodata_test nodata data_src =
     (if \<not> np_isnan nodata then np_equal data_src nodata else np_isnan_array data_src)"

definition raster_copy_with_nodata ::
  "string \<Rightarrow> int \<Rightarrow> int \<Rightarrow> int \<Rightarrow> int \<Rightarrow> nat \<Rightarrow>
   string \<Rightarrow> int \<Rightarrow> int \<Rightarrow> int \<Rightarrow> int \<Rightarrow> nat \<Rightarrow>
   sample \<Rightarrow> gdal_state \<Rightarrow> int result \<times> gdal_state" where
  "raster_copy_with_nodata s_fh s_xoff s_yoff s_xsize s_ysize s_band_n
                           t_fh t_xoff t_yoff t_xsize t_ysize t_band_n nodata st0 =
     (let st = log_event (Enter WithNodata) st0;
          s_band = GetRasterBand st s_fh s_band_n;
          t_band = GetRasterBand st t_fh t_band_n
      in case s_band of
           None \<Rightarrow> (Raise AttributeError, st)
         | Some (s_ref, _) \<Rightarrow>
       (case ReadAsArray s_ref s_xoff s_yoff s_xsize s_ysize t_xsize t_ysize st of
           (Raise e, st1) \<Rightarrow> (Raise e, st1)
         | (Return data_src, st1) \<Rightarrow>
       (case t_band of
           None \<Rightarrow> (Raise AttributeError, st1)
         | Some (t_ref, _) \<Rightarrow>
       (case ReadAsArray t_ref t_xoff t_yoff t_xsize t_ysize t_xsize t_ysize st1 of
           (Raise e, st2) \<Rightarrow> (Raise e, st2)
         | (Return data_dst, st2) \<Rightarrow>
          let to_write = np_choose (nodata_test nodata data_src) (data_src, data_dst)
          in (case WriteArray t_ref to_write t_xoff t_yoff st2 of
                (Raise e, st3) \<Rightarrow> (Raise e, st3)
              | (Return _, st3) \<Rightarrow> (Return 0, st3))))))"

definition raster_copy_with_mask ::
  "string \<Rightarrow> int \<Rightarrow> int \<Rightarrow> int \<Rightarrow> int \<Rightarrow> nat \<Rightarrow>
   string \<Rightarrow> int \<Rightarrow> int \<Rightarrow> int \<Rightarrow> int \<Rightarrow> nat \<Rightarrow>
   band_ref \<Rightarrow> gdal_state \<Rightarrow> int result \<times> gdal_state" where
  "raster_copy_with_mask s_fh s_xoff s_yoff s_xsize s_ysize s_band_n
                         t_fh t_xoff t_yoff t_xsize t_ysize t_band_n m_band st0 =
     (let st = log_event (Enter WithMask) st0;
          s_band = GetRasterBand st s_fh s_band_n;
          t_band = GetRasterBand st t_fh t_band_n
      in case s_band of
           None \<Rightarrow> (Raise AttributeError, st)
         | Some (s_ref, _) \<Rightarrow>
       (case ReadAsArray s_ref s_xoff s_yoff s_xsize s_ysize t_xsize t_ysize st of
           (Raise e, st1) \<Rightarrow> (Raise e, st1)
         | (Return data_src, st1) \<Rightarrow>
       (case ReadAsArray m_band s_xoff s_yoff s_xsize s_ysize t_xsize t_ysize st1 of
           (Raise e, st2) \<Rightarrow> (Raise e, st2)
         | (Return data_mask, st2) \<Rightarrow>
       (case t_band of
           None \<Rightarrow> (Raise AttributeError, st2)
         | Some (t_ref, _) \<Rightarrow>
       (case ReadAsArray t_ref t_xoff t_yoff t_xsize t_ysize t_xsize t_ysize st2 of
           (Raise e, st3) \<Rightarrow> (Raise e, st3)
         | (Return data_dst, st3) \<Rightarrow>
          let mask_test = np_equal data_mask (Num 0);
              to_write = np_choose mask_test (data_src, data_dst)
          in (case WriteArray t_ref to_write t_xoff t_yoff st3 of
                (Raise e, st4) \<Rightarrow> (Raise e, st4)
              | (Return _, st4) \<Rightarrow> (Return 0, st4)))))))"

text \<open>
  \<^verbatim>\<open>raster_copy\<close>. The \<^verbatim>\<open>verbose\<close> print is left out. The plain copy of lines 96-104 is a
  definition of its own so that it can be named.
\<close>

definition raster_copy_plain ::
  "string \<Rightarrow> int \<Rightarrow> int \<Rightarrow> int \<Rightarrow> int \<Rightarrow> nat \<Rightarrow>
   string \<Rightarrow> int \<Rightarrow> int \<Rightarrow> int \<Rightarrow> int \<Rightarrow> nat \<Rightarrow>
   gdal_state \<Rightarrow> int result \<times> gdal_state" where
  "raster_copy_plain s_fh s_xoff s_yoff s_xsize s_ysize s_band_n
                     t_fh t_xoff t_yoff t_xsize t_ysize t_band_n st0 =
     (let st = log_event (Enter Plain) st0;
          s_band = GetRasterBand st s_fh s_band_n;
          t_band = GetRasterBand st t_fh t_band_n
      in case s_band of
           None \<Rightarrow> (Raise AttributeError, st)
         | Some (s_ref, _) \<Rightarrow>
       (case t_band of
           None \<Rightarrow> (Raise AttributeError, st)
         | Some (t_ref, t_attr) \<Rightarrow>
       (case ReadRaster s_ref s_xoff s_yoff s_xsize s_ysize t_xsize t_ysize (DataType t_attr) st of
           (Raise e, st1) \<Rightarrow> (Raise e, st1)
         | (Return data, st1) \<Rightarrow>
       (case WriteRaster t_ref t_xoff t_yoff t_xsize t_ysize data st1 of
           (Raise e, st2) \<Rightarrow> (Raise e, st2)
         | (Return _, st2) \<Rightarrow> (Return 0, st2)))))"

definition raster_copy ::
  "string \<Rightarrow> int \<Rightarrow> int \<Rightarrow> int \<Rightarrow> int \<Rightarrow> nat \<Rightarrow>
   string \<Rightarrow> int \<Rightarrow> int \<Rightarrow> int \<Rightarrow> int \<Rightarrow> nat \<Rightarrow>
   sample option \<Rightarrow> gdal_state \<Rightarrow> int result \<times> gdal_state" where
  "raster_copy s_fh s_xoff s_yoff s_xsize s_ysize s_band_n
               t_fh t_xoff t_yoff t_xsize t_ysize t_band_n nodata st =
     (case nodata of
        Some nd \<Rightarrow>
          raster_copy_with_nodata s_fh s_xoff s_yoff s_xsize s_ysize s_band_n
                                  t_fh t_xoff t_yoff t_xsize t_ysize t_band_n nd st
      | None \<Rightarrow>
          (case GetRasterBand st s_fh s_band_n of
             None \<Rightarrow> (Raise AttributeError, st)
           | Some (s_band, s_attr) \<Rightarrow>
               let m_band =
                     (if MaskFlags s_attr \<noteq> GMF_ALL_VALID then Some (MaskBand s_fh s_band_n)
                      else if ColorInterpretation s_attr = GCI_AlphaBand then Some s_band
                      else None)
               in (case m_band of
                     Some m \<Rightarrow>
                       raster_copy_with_mask s_fh s_xoff s_yoff s_xsize s_ysize s_band_n
                                             t_fh t_xoff t_yoff t_xsize t_ysize t_band_n m st
                   | None \<Rightarrow>
                       raster_copy_plain s_fh s_xoff s_yoff s_xsize s_ysize s_band_n
                                         t_fh t_xoff t_yoff t_xsize t_ysize t_band_n st)))"


section \<open>Tile descriptors (lines 165-299)\<close>

record file_info =
  filename :: string
  bands :: nat
  xsize :: int
  ysize :: int
  band_type :: nat
  projection :: string
  geotransform :: geo_transform
  ulx :: pyfloat
  uly :: pyfloat
  lrx :: pyfloat
  lry :: pyfloat
  ct :: "colortable option"

text \<open>
  \<^verbatim>\<open>file_info.init_from_name\<close>: \<open>Return None\<close> is the return value 0 (the file cannot be
  opened), \<open>Return (Some fi)\<close> the return value 1 with the fields it has set. A dataset
  without band 1 makes \<^verbatim>\<open>fh.GetRasterBand(1).DataType\<close> raise.
\<close>

definition init_from_name :: "gdal_state \<Rightarrow> string \<Rightarrow> file_info option result" where
  "init_from_name st name =
     (case files st name of
        None \<Rightarrow> Return None
      | Some fh \<Rightarrow>
          (case GetRasterBand st name 1 of
             None \<Rightarrow> Raise AttributeError
           | Some (_, band1) \<Rightarrow>
               let g = GeoTransform fh
               in Return (Some
                    \<lparr>filename = name,
                     bands = length (raster_bands fh),
                     xsize = RasterXSize fh,
                     ysize = RasterYSize fh,
                     band_type = DataType band1,
                     projection = Projection fh,
                     geotransform = g,
                     ulx = gt0 g,
                     uly = gt3 g,
                     lrx = fadd (gt0 g) (fmul (gt1 g) (float_of_int (RasterXSize fh))),
                     lry = fadd (gt3 g) (fmul (gt5 g) (float_of_int (RasterYSize fh))),
                     ct = ColorTable band1\<rparr>)))"

text \<open>\<^verbatim>\<open>names_to_fileinfos\<close>: the loop with its accumulator \<^verbatim>\<open>file_infos\<close>.\<close>

fun collect_fileinfos :: "gdal_state \<Rightarrow> string list \<Rightarrow> file_info list \<Rightarrow> file_info list result" where
  "collect_fileinfos st [] file_infos = Return file_infos"
| "collect_fileinfos st (name # names) file_infos =
     (case init_from_name st name of
        Raise e \<Rightarrow> Raise e
      | Return None \<Rightarrow> collect_fileinfos st names file_infos
      | Return (Some fi) \<Rightarrow> collect_fileinfos st names (file_infos @ [fi]))"

definition names_to_fileinfos :: "gdal_state \<Rightarrow> string list \<Rightarrow> file_info list result" where
  "names_to_fileinfos st names = collect_fileinfos st names []"

subsection \<open>\<^verbatim>\<open>copy_into\<close>\<close>

text \<open>A world rectangle is \<open>(ulx, uly, lrx, lry)\<close>, a pixel window \<open>(xoff, yoff, xsize, ysize)\<close>.\<close>

type_synonym rect = "pyfloat \<times> pyfloat \<times> pyfloat \<times> pyfloat"

type_synonym window = "int \<times> int \<times> int \<times> int"

text \<open>Lines 248-262: the target's extent and the intersection region.\<close>

definition overlap_rect :: "file_info \<Rightarrow> dataset \<Rightarrow> rect" where
  "overlap_rect self t_ds =
     (let t_geotransform = GeoTransform t_ds;
          t_ulx = gt0 t_geotransform;
          t_uly = gt3 t_geotransform;
          t_lrx = fadd (gt0 t_geotransform)
                    (fmul (float_of_int (RasterXSize t_ds)) (gt1 t_geotransform));
          t_lry = fadd (gt3 t_geotransform)
                    (fmul (float_of_int (RasterYSize t_ds)) (gt5 t_geotransform));
          tgw_ulx = max t_ulx (ulx self);
          tgw_lrx = min t_lrx (lrx self);
          tgw_uly = (if gt5 t_geotransform < 0 then min t_uly (uly self)
                     else max t_uly (uly self));
          tgw_lry = (if gt5 t_geotransform < 0 then max t_lry (lry self)
                     else min t_lry (lry self))
      in (tgw_ulx, tgw_uly, tgw_lrx, tgw_lry))"

text \<open>Lines 264-270: "do they even intersect?"\<close>

definition no_intersection :: "geo_transform \<Rightarrow> rect \<Rightarrow> bool" where
  "no_intersection t_geotransform tgw =
     (case tgw of (tgw_ulx, tgw_uly, tgw_lrx, tgw_lry) \<Rightarrow>
        tgw_ulx \<ge> tgw_lrx \<or>
        (gt5 t_geotransform < 0 \<and> tgw_uly \<le> tgw_lry) \<or>
        (gt5 t_geotransform > 0 \<and> tgw_uly \<ge> tgw_lry))"

text \<open>Lines 272-278: the target window in pixel coordinates.\<close>

definition target_window :: "geo_transform \<Rightarrow> rect \<Rightarrow> window result" where
  "target_window t_geotransform tgw =
     (case tgw of (tgw_ulx, tgw_uly, tgw_lrx, tgw_lry) \<Rightarrow>
        bindr (fdiv (fsub tgw_ulx (gt0 t_geotransform)) (gt1 t_geotransform)) (\<lambda>qx.
        bindr (fdiv (fsub tgw_uly (gt3 t_geotransform)) (gt5 t_geotransform)) (\<lambda>qy.
        bindr (fdiv (fsub tgw_lrx (gt0 t_geotransform)) (gt1 t_geotransform)) (\<lambda>rx.
        bindr (fdiv (fsub tgw_lry (gt3 t_geotransform)) (gt5 t_geotransform)) (\<lambda>ry.
          let tw_xoff = py_int (fadd qx lit_0_1);
              tw_yoff = py_int (fadd qy lit_0_1);
              tw_xsize = py_int (fadd rx lit_0_5) - tw_xoff;
              tw_ysize = py_int (fadd ry lit_0_5) - tw_yoff
          in Return (tw_xoff, tw_yoff, tw_xsize, tw_ysize))))))"

text \<open>Lines 283-289: the source window in pixel coordinates.\<close>

definition source_window :: "geo_transform \<Rightarrow> rect \<Rightarrow> window result" where
  "source_window s_geotransform tgw =
     (case tgw of (tgw_ulx, tgw_uly, tgw_lrx, tgw_lry) \<Rightarrow>
        bindr (fdiv (fsub tgw_ulx (gt0 s_geotransform)) (gt1 s_geotransform)) (\<lambda>qx.
        bindr (fdiv (fsub tgw_uly (gt3 s_geotransform)) (gt5 s_geotransform)) (\<lambda>qy.
        bindr (fdiv (fsub tgw_lrx (gt0 s_geotransform)) (gt1 s_geotransform)) (\<lambda>rx.
        bindr (fdiv (fsub tgw_lry (gt3 s_geotransform)) (gt5 s_geotransform)) (\<lambda>ry.
          let sw_xoff = py_int qx;
              sw_yoff = py_int qy;
              sw_xsize = py_int (fadd rx lit_0_5) - sw_xoff;
              sw_ysize = py_int (fadd ry lit_0_5) - sw_yoff
          in Return (sw_xoff, sw_yoff, sw_xsize, sw_ysize))))))"

text \<open>
  \<^verbatim>\<open>file_info.copy_into\<close>. \<open>t_fh\<close> is the handle of the target; the source is opened again
  under \<^verbatim>\<open>self.filename\<close>.
\<close>

definition copy_into ::
  "file_info \<Rightarrow> string \<Rightarrow> nat \<Rightarrow> nat \<Rightarrow> sample option \<Rightarrow> gdal_state
     \<Rightarrow> int result \<times> gdal_state" where
  "copy_into self t_fh s_band t_band nodata_arg st =
     (case files st t_fh of
        None \<Rightarrow> (Raise AttributeError, st)
      | Some t_ds \<Rightarrow>
          let t_geotransform = GeoTransform t_ds;
              tgw = overlap_rect self t_ds
          in if no_intersection t_geotransform tgw then (Return 1, st)
             else
               (case target_window t_geotransform tgw of
                  Raise e \<Rightarrow> (Raise e, st)
                | Return (tw_xoff, tw_yoff, tw_xsize, tw_ysize) \<Rightarrow>
                    if tw_xsize < 1 \<or> tw_ysize < 1 then (Return 1, st)
                    else
                      (case source_window (geotransform self) tgw of
                         Raise e \<Rightarrow> (Raise e, st)
                       | Return (sw_xoff, sw_yoff, sw_xsize, sw_ysize) \<Rightarrow>
                           if sw_xsize < 1 \<or> sw_ysize < 1 then (Return 1, st)
                           else
                             raster_copy (filename self) sw_xoff sw_yoff sw_xsize sw_ysize s_band
                                         t_fh tw_xoff tw_yoff tw_xsize tw_ysize t_band
                                         nodata_arg st)))"

section \<open>\<^verbatim>\<open>run_merge\<close> (lines 303-448)\<close>

text \<open>
  The options \<^verbatim>\<open>run_merge\<close> fixes in its first lines. \<^verbatim>\<open>separate = 0\<close>, \<^verbatim>\<open>copy_pct = 0\<close>,
  \<^verbatim>\<open>a_nodata = None\<close>, \<^verbatim>\<open>band_type = None\<close>, \<^verbatim>\<open>verbose = 0\<close> and \<^verbatim>\<open>quiet = 0\<close> only select
  branches; the branches they rule out are not modelled. \<^verbatim>\<open>pre_init = []\<close> fills nothing:
  an output with at least one band meets neither test of lines 413-418 and one with no
  band loops over an empty range.
\<close>

definition run_merge_nodata :: "sample option" where
  "run_merge_nodata = None"

definition bTargetAlignedPixels :: bool where
  "bTargetAlignedPixels = False"

definition createonly :: int where
  "createonly = 0"

text \<open>Lines 347-356: the running minimum and maximum, started from the first tile.\<close>

definition union_extent :: "file_info \<Rightarrow> file_info list \<Rightarrow> rect" where
  "union_extent fi0 file_infos =
     foldl (\<lambda>(ulx, uly, lrx, lry) fi.
              (min ulx (file_info.ulx fi), max uly (file_info.uly fi),
               max lrx (file_info.lrx fi), min lry (file_info.lry fi)))
           (ulx fi0, uly fi0, lrx fi0, lry fi0) file_infos"

text \<open>Lines 375-379: the snap to the pixel grid of the \<^verbatim>\<open>bTargetAlignedPixels\<close> mode.\<close>

definition align_extent :: "rect \<Rightarrow> pyfloat \<Rightarrow> pyfloat \<Rightarrow> rect result" where
  "align_extent extent psize_x psize_y =
     (case extent of (ulx0, uly0, lrx0, lry0) \<Rightarrow>
        bindr (fdiv ulx0 psize_x) (\<lambda>q1.
        bindr (fdiv lrx0 psize_x) (\<lambda>q2.
        bindr (fdiv lry0 (- psize_y)) (\<lambda>q3.
        bindr (fdiv uly0 (- psize_y)) (\<lambda>q4.
          Return (fmul (float_of_int (math_floor q1)) psize_x,
                  fmul (float_of_int (math_ceil q4)) (- psize_y),
                  fmul (float_of_int (math_ceil q2)) psize_x,
                  fmul (float_of_int (math_floor q3)) (- psize_y)))))))"

text \<open>Lines 383-384: the size of the output raster.\<close>

definition output_size :: "rect \<Rightarrow> geo_transform \<Rightarrow> (int \<times> int) result" where
  "output_size extent g =
     (case extent of (ulx0, uly0, lrx0, lry0) \<Rightarrow>
        bindr (fdiv (fsub lrx0 ulx0) (gt1 g)) (\<lambda>qx.
        bindr (fdiv (fsub lry0 uly0) (gt5 g)) (\<lambda>qy.
          Return (py_int (fadd qx lit_0_5), py_int (fadd qy lit_0_5)))))"

text \<open>Lines 439-441: one tile, band by band.\<close>

fun copy_bands :: "file_info \<Rightarrow> string \<Rightarrow> nat list \<Rightarrow> gdal_state \<Rightarrow> unit result \<times> gdal_state" where
  "copy_bands fi t_fh [] st = (Return (), st)"
| "copy_bands fi t_fh (band # rest) st =
     (case copy_into fi t_fh band band run_merge_nodata st of
        (Raise e, st') \<Rightarrow> (Raise e, st')
      | (Return _, st') \<Rightarrow> copy_bands fi t_fh rest st')"

text \<open>Lines 427-448: the tiles in list order. The progress calls are left out.\<close>

fun copy_files :: "file_info list \<Rightarrow> string \<Rightarrow> nat \<Rightarrow> gdal_state \<Rightarrow> unit result \<times> gdal_state" where
  "copy_files [] t_fh nbands st = (Return (), st)"
| "copy_files (fi # rest) t_fh nbands st =
     (if createonly \<noteq> 0 then copy_files rest t_fh nbands st
      else
        (case copy_bands fi t_fh [1..<Suc nbands] st of
           (Raise e, st') \<Rightarrow> (Raise e, st')
         | (Return _, st') \<Rightarrow> copy_files rest t_fh nbands st'))"

text \<open>
  \<^verbatim>\<open>run_merge\<close>, with the list that \<^verbatim>\<open>glob\<close> returns as the argument \<open>names\<close>. When the
  output file already opens (line 368) the creation block is skipped, and with it the
  only assignment to \<^verbatim>\<open>bands\<close>: the first tile then stops at line 440 with
  \<^verbatim>\<open>UnboundLocalError\<close>, before anything is read or written.
\<close>

definition run_merge :: "string list \<Rightarrow> string \<Rightarrow> gdal_state \<Rightarrow> unit result \<times> gdal_state" where
  "run_merge names out_file st =
     (case driver_error st out_file of
        Some e \<Rightarrow> (Raise e, st)
      | None \<Rightarrow>
     (case names_to_fileinfos st names of
        Raise e \<Rightarrow> (Raise e, st)
      | Return file_infos \<Rightarrow>
     (case file_infos of
        [] \<Rightarrow> (Raise IndexError, st)
      | fi0 # _ \<Rightarrow>
          let extent = union_extent fi0 file_infos;
              psize_x = gt1 (geotransform fi0);
              psize_y = gt5 (geotransform fi0);
              band_type = file_info.band_type fi0
          in (case files st out_file of
                Some _ \<Rightarrow> (Raise UnboundLocalError, st)
              | None \<Rightarrow>
                 (case (if bTargetAlignedPixels then align_extent extent psize_x psize_y
                        else Return extent) of
                    Raise e \<Rightarrow> (Raise e, st)
                  | Return (ulx1, uly1, lrx1, lry1) \<Rightarrow>
                      let g = \<lparr>gt0 = ulx1, gt1 = psize_x, gt2 = 0,
                               gt3 = uly1, gt4 = 0, gt5 = psize_y\<rparr>
                      in (case output_size (ulx1, uly1, lrx1, lry1) g of
                            Raise e \<Rightarrow> (Raise e, st)
                          | Return (xsize1, ysize1) \<Rightarrow>
                              let nbands = bands fi0
                              in (case Driver_Create out_file xsize1 ysize1 nbands band_type st of
                                    None \<Rightarrow> (Raise SystemExit, st)
                                  | Some st1 \<Rightarrow>
                                      copy_files file_infos out_file nbands
                                        (SetProjection out_file (projection fi0)
                                           (SetGeoTransform out_file g st1)))))))))"


section \<open>Notions used in the statements\<close>

text \<open>The copy routines a trace shows as entered, in order.\<close>

definition entered :: "event list \<Rightarrow> strategy list" where
  "entered evs = List.map_filter (\<lambda>e. case e of Enter s \<Rightarrow> Some s | _ \<Rightarrow> None) evs"


text \<open>
  \<open>trunc_coord v origin psize bias\<close> is \<^verbatim>\<open>int((v - origin) / psize + bias)\<close> for a nonzero
  \<open>psize\<close>, \<open>trunc_coord0\<close> the same without a bias.
\<close>

definition trunc_coord :: "pyfloat \<Rightarrow> pyfloat \<Rightarrow> pyfloat \<Rightarrow> pyfloat \<Rightarrow> int" where
  "trunc_coord v origin psize bias = py_int (fadd (rnd (fsub v origin / psize)) bias)"



text \<open>
  One coordinate of the snap: \<^verbatim>\<open>math.floor(v / step) * step\<close> and \<^verbatim>\<open>math.ceil(v / step) * step\<close>.
  \<open>exact_multiple k step\<close> says that the integer \<open>k\<close> and the product \<open>k * step\<close> are
  binary64 numbers, so that computing the product rounds nothing.
\<close>

definition exact_multiple :: "int \<Rightarrow> pyfloat \<Rightarrow> bool" where
  "exact_multiple k p = (rnd (of_int k) = of_int k \<and> rnd (of_int k * p) = of_int k * p)"

definition snap_down :: "pyfloat \<Rightarrow> pyfloat \<Rightarrow> pyfloat" where
  "snap_down v step = fmul (float_of_int (math_floor (rnd (v / step)))) step"

definition snap_up :: "pyfloat \<Rightarrow> pyfloat \<Rightarrow> pyfloat" where
  "snap_up v step = fmul (float_of_int (math_ceil (rnd (v / step)))) step"

text \<open>
  What a copy into the bands \<open>S\<close> of the dataset \<open>t_fh\<close> may change: no other dataset, not
  the target's geometry, and no band outside \<open>S\<close>.
\<close>

definition same_geometry :: "dataset \<Rightarrow> dataset \<Rightarrow> bool" where
  "same_geometry a b =
     (RasterXSize a = RasterXSize b \<and> RasterYSize a = RasterYSize b \<and>
      GeoTransform a = GeoTransform b \<and> Projection a = Projection b \<and>
      length (raster_bands a) = length (raster_bands b))"

definition bands_frame :: "string \<Rightarrow> nat set \<Rightarrow> gdal_state \<Rightarrow> gdal_state \<Rightarrow> bool" where
  "bands_frame t_fh S st st' =
     ((\<forall>fh. fh \<noteq> t_fh \<longrightarrow> files st' fh = files st fh) \<and>
      (case files st t_fh of
         None \<Rightarrow> files st' t_fh = None
       | Some ds \<Rightarrow>
           (\<exists>ds'. files st' t_fh = Some ds' \<and> same_geometry ds' ds \<and>
                  (\<forall>n. n \<notin> S \<longrightarrow> 1 \<le> n \<longrightarrow>
                       raster_bands ds' ! (n - 1) = raster_bands ds ! (n - 1)))))"

text \<open>
  \<open>describe name ds\<close> is the descriptor \<^verbatim>\<open>init_from_name\<close> fills in for a dataset \<open>ds\<close> that
  opens under \<open>name\<close>; \<open>openable\<close> says that a name opens.
\<close>

definition describe :: "string \<Rightarrow> dataset \<Rightarrow> file_info" where
  "describe name ds =
     \<lparr>filename = name, bands = length (raster_bands ds),
      xsize = RasterXSize ds, ysize = RasterYSize ds,
      band_type = DataType (raster_bands ds ! 0),
      projection = Projection ds, geotransform = GeoTransform ds,
      ulx = gt0 (GeoTransform ds), uly = gt3 (GeoTransform ds),
      lrx = fadd (gt0 (GeoTransform ds))
              (fmul (gt1 (GeoTransform ds)) (float_of_int (RasterXSize ds))),
      lry = fadd (gt3 (GeoTransform ds))
              (fmul (gt5 (GeoTransform ds)) (float_of_int (RasterYSize ds))),
      ct = ColorTable (raster_bands ds ! 0)\<rparr>"


text \<open>
  The geotransform \<^verbatim>\<open>run_merge\<close> gives a new output (line 381) and the dataset that
  \<^verbatim>\<open>Driver.Create\<close>, \<^verbatim>\<open>SetGeoTransform\<close> and \<^verbatim>\<open>SetProjection\<close> leave behind.
\<close>

definition planned_geotransform :: "file_info \<Rightarrow> rect \<Rightarrow> geo_transform" where
  "planned_geotransform fi0 extent =
     \<lparr>gt0 = fst extent, gt1 = gt1 (geotransform fi0), gt2 = 0,
      gt3 = fst (snd extent), gt4 = 0, gt5 = gt5 (geotransform fi0)\<rparr>"

definition created_dataset ::
  "int \<Rightarrow> int \<Rightarrow> nat \<Rightarrow> nat \<Rightarrow> geo_transform \<Rightarrow> string \<Rightarrow> dataset" where
  "created_dataset w h nb dt g p =
     \<lparr>RasterXSize = w, RasterYSize = h, GeoTransform = g, Projection = p,
      raster_bands = replicate nb (new_band dt w h)\<rparr>"

section \<open>Example rasters\<close>

text \<open>Small north-up rasters on which the theorems below are instantiated.\<close>

definition north_up :: "pyfloat \<Rightarrow> pyfloat \<Rightarrow> geo_transform" where
  "north_up x y = \<lparr>gt0 = x, gt1 = 1, gt2 = 0, gt3 = y, gt4 = 0, gt5 = - 1\<rparr>"

definition flat_band :: "nat \<Rightarrow> nat \<Rightarrow> rat \<Rightarrow> band" where
  "flat_band w h v =
     \<lparr>DataType = 1, MaskFlags = GMF_ALL_VALID, ColorInterpretation = 1, ColorTable = None,
      pixels = replicate h (replicate w (Num v)),
      mask_pixels = replicate h (replicate w (Num 255))\<rparr>"

definition tile :: "pyfloat \<Rightarrow> pyfloat \<Rightarrow> nat \<Rightarrow> nat \<Rightarrow> rat \<Rightarrow> dataset" where
  "tile x y w h v =
     \<lparr>RasterXSize = int w, RasterYSize = int h, GeoTransform = north_up x y,
      Projection = ''EPSG:4326'', raster_bands = [flat_band w h v]\<rparr>"

text \<open>A source of two pixels, the first one the sentinel 9 and masked out.\<close>

definition src_ds :: dataset where
  "src_ds =
     \<lparr>RasterXSize = 2, RasterYSize = 1, GeoTransform = north_up 0 1,
      Projection = ''EPSG:4326'',
      raster_bands =
        [\<lparr>DataType = 1, MaskFlags = 8, ColorInterpretation = 1, ColorTable = None,
          pixels = [[Num 9, Num 3]], mask_pixels = [[Num 0, Num 255]]\<rparr>]\<rparr>"

text \<open>A two-pixel alpha band.\<close>

definition alpha_ds :: dataset where
  "alpha_ds =
     \<lparr>RasterXSize = 2, RasterYSize = 1, GeoTransform = north_up 0 1,
      Projection = ''EPSG:4326'',
      raster_bands =
        [\<lparr>DataType = 1, MaskFlags = GMF_ALL_VALID, ColorInterpretation = GCI_AlphaBand,
          ColorTable = None,
          pixels = [[Num 0, Num 255]], mask_pixels = [[Num 255, Num 255]]\<rparr>]\<rparr>"

definition copy_state :: gdal_state where
  "copy_state =
     \<lparr>files = [''src.tif'' \<mapsto> src_ds, ''alpha.tif'' \<mapsto> alpha_ds,
               ''dst.tif'' \<mapsto> tile 0 1 2 1 5],
      trace = [], driver_error = (\<lambda>_. None), create_refused = (\<lambda>_. False)\<rparr>"



text \<open>Descriptors of a tile far east of \<^verbatim>\<open>dst.tif\<close> and of one that touches only a sliver of its last column.\<close>

definition far_fi :: file_info where
  "far_fi =
     \<lparr>filename = ''far.tif'', bands = 1, xsize = 2, ysize = 1, band_type = 1,
      projection = ''EPSG:4326'', geotransform = north_up 10 1,
      ulx = 10, uly = 1, lrx = 12, lry = 0, ct = None\<rparr>"

definition sliver_fi :: file_info where
  "sliver_fi =
     \<lparr>filename = ''sliver.tif'', bands = 1, xsize = 2, ysize = 1, band_type = 1,
      projection = ''EPSG:4326'', geotransform = north_up (31 / 16) 1,
      ulx = 31 / 16, uly = 1, lrx = 63 / 16, lry = 0, ct = None\<rparr>"

text \<open>The pixel width \<^verbatim>\<open>1.5000000000000013\<close>, that is \<open>(3 * 2^51 + 6) / 2^52\<close>.\<close>

definition tap_psize :: pyfloat where
  "tap_psize = 6755399441055750 / 4503599627370496"

text \<open>
  Two overlapping 2x2 tiles, \<^verbatim>\<open>a.tif\<close> (all 5) over x in [0,2] and \<^verbatim>\<open>b.tif\<close> (all 7) over
  x in [1,3], and the 3x2 mosaic they merge into.
\<close>

definition two_tiles :: gdal_state where
  "two_tiles =
     \<lparr>files = [''a.tif'' \<mapsto> tile 0 2 2 2 5, ''b.tif'' \<mapsto> tile 1 2 2 2 7],
      trace = [], driver_error = (\<lambda>_. None), create_refused = (\<lambda>_. False)\<rparr>"

definition mosaic :: "ndarray \<Rightarrow> dataset" where
  "mosaic px =
     \<lparr>RasterXSize = 3, RasterYSize = 2, GeoTransform = north_up 0 2,
      Projection = ''EPSG:4326'',
      raster_bands =
        [\<lparr>DataType = 1, MaskFlags = GMF_ALL_VALID, ColorInterpretation = 0, ColorTable = None,
          pixels = px, mask_pixels = replicate 2 (replicate 3 (Num 255))\<rparr>]\<rparr>"


text \<open>Tiles with the extents [0,10]x[0,10] and [5,20]x[-5,10] at pixel size 1.\<close>

definition union_tiles :: gdal_state where
  "union_tiles =
     \<lparr>files = [''t1.tif'' \<mapsto> tile 0 10 10 10 1, ''t2.tif'' \<mapsto> tile 5 10 15 15 2],
      trace = [], driver_error = (\<lambda>_. None), create_refused = (\<lambda>_. False)\<rparr>"

section \<open>Arrays and raster windows\<close>


lemma read_window_length: "length (read_window px xoff yoff xsz ysz bx by) = nat by"
  by (simp add: read_window_def)

lemma read_window_row_length:
  "0 \<le> j \<Longrightarrow> j < by \<Longrightarrow> length (read_window px xoff yoff xsz ysz bx by ! nat j) = nat bx"
  by (simp add: read_window_def nat_less_iff)






lemma has_shape_nth: "has_shape a h w \<Longrightarrow> j < h \<Longrightarrow> length (a ! j) = w"
  by (simp add: has_shape_def)

lemma has_shape_length: "has_shape a h w \<Longrightarrow> length a = h"
  by (simp add: has_shape_def)






lemma files_log_event [simp]: "files (log_event e st) = files st"
  by (simp add: log_event_def)

lemma GetRasterBand_log_event [simp]: "GetRasterBand (log_event e st) fh n = GetRasterBand st fh n"
  by (simp add: GetRasterBand_def)

lemma band_samples_log_event [simp]: "band_samples (log_event e st) b = band_samples st b"
  by (cases b) (simp_all add: band_samples_def split: option.splits)



lemma band_samples_MaskBand:
  "files st fh = Some ds \<Longrightarrow> 1 \<le> n \<Longrightarrow> n \<le> length (raster_bands ds) \<Longrightarrow>
   band_samples st (MaskBand fh n) = Some (ds, mask_pixels (raster_bands ds ! (n - 1)))"
  by (simp add: band_samples_def GetRasterBand_def)














section \<open>The nodata-aware composite\<close>



section \<open>The mask-aware composite\<close>





section \<open>Which copy routine runs\<close>

lemma entered_append [simp]: "entered (xs @ ys) = entered xs @ entered ys"
  by (simp add: entered_def map_filter_def)

lemma entered_simps [simp]:
  "entered [] = []"
  "entered (Enter s # evs) = s # entered evs"
  "entered (ReadWindow b x y w h # evs) = entered evs"
  "entered (WriteWindow b x y w h # evs) = entered evs"
  by (simp_all add: entered_def map_filter_def)

lemma trace_log_event [simp]: "trace (log_event e st) = trace st @ [e]"
  by (simp add: log_event_def)

lemma trace_store_samples [simp]: "trace (store_samples b px st) = trace st"
  by (cases b) (simp_all add: store_samples_def split: option.splits)

lemma trace_ReadAsArray:
  "ReadAsArray b x y w h bx by st = (r, st') \<Longrightarrow> trace st' = trace st @ [ReadWindow b x y w h]"
  by (auto simp: ReadAsArray_def Let_def split: option.splits prod.splits if_splits)

lemma trace_WriteRaster:
  "WriteRaster b x y w h d st = (r, st') \<Longrightarrow> trace st' = trace st @ [WriteWindow b x y w h]"
  by (auto simp: WriteRaster_def Let_def split: option.splits prod.splits if_splits)

lemma entered_ReadAsArray:
  "ReadAsArray b x y w h bx by st = (r, st') \<Longrightarrow> entered (trace st') = entered (trace st)"
  by (simp add: trace_ReadAsArray)

lemma entered_ReadRaster:
  "ReadRaster b x y w h bx by dt st = (r, st') \<Longrightarrow> entered (trace st') = entered (trace st)"
  by (simp add: ReadRaster_def trace_ReadAsArray)

lemma entered_WriteRaster:
  "WriteRaster b x y w h d st = (r, st') \<Longrightarrow> entered (trace st') = entered (trace st)"
  by (simp add: trace_WriteRaster)

lemma entered_WriteArray:
  "WriteArray b a x y st = (r, st') \<Longrightarrow> entered (trace st') = entered (trace st)"
  by (simp add: WriteArray_def trace_WriteRaster)

lemma entered_raster_copy_with_nodata:
  "entered (trace (snd (raster_copy_with_nodata s_fh sx sy sw sh sn t_fh tx ty tw th tn nd st)))
     = entered (trace st) @ [WithNodata]"
  unfolding raster_copy_with_nodata_def Let_def
  by (auto split: option.splits prod.splits result.splits
        dest!: entered_ReadAsArray entered_WriteArray)

lemma entered_raster_copy_with_mask:
  "entered (trace (snd (raster_copy_with_mask s_fh sx sy sw sh sn t_fh tx ty tw th tn m st)))
     = entered (trace st) @ [WithMask]"
  unfolding raster_copy_with_mask_def Let_def
  by (auto split: option.splits prod.splits result.splits
        dest!: entered_ReadAsArray entered_WriteArray)

lemma entered_raster_copy_plain:
  "entered (trace (snd (raster_copy_plain s_fh sx sy sw sh sn t_fh tx ty tw th tn st)))
     = entered (trace st) @ [Plain]"
  unfolding raster_copy_plain_def Let_def
  by (auto split: option.splits prod.splits result.splits
        dest!: entered_ReadRaster entered_WriteRaster)

text \<open>
  Claim C5. \<^verbatim>\<open>raster_copy\<close> with a nodata argument is \<^verbatim>\<open>raster_copy_with_nodata\<close>, whatever
  the band's mask flags and colour interpretation. Without one, and with the source
  band present: mask flags other than all-valid give the mask-aware composite on the
  band's mask band; all-valid flags on an alpha band give it with the band as its own
  mask; the plain copy runs only when the flags are all-valid and the band is not alpha.
  In each case the trace shows exactly that routine as entered.
\<close>

theorem raster_copy_strategy_precedence:
  "(\<forall>nd. nodata = Some nd \<longrightarrow>
      raster_copy s_fh sx sy sw sh sn t_fh tx ty tw th tn nodata st =
        raster_copy_with_nodata s_fh sx sy sw sh sn t_fh tx ty tw th tn nd st \<and>
      entered (trace (snd (raster_copy s_fh sx sy sw sh sn t_fh tx ty tw th tn nodata st))) =
        entered (trace st) @ [WithNodata]) \<and>
   (\<forall>s_band a. nodata = None \<and> GetRasterBand st s_fh sn = Some (s_band, a) \<longrightarrow>
      (MaskFlags a \<noteq> GMF_ALL_VALID \<longrightarrow>
         raster_copy s_fh sx sy sw sh sn t_fh tx ty tw th tn nodata st =
           raster_copy_with_mask s_fh sx sy sw sh sn t_fh tx ty tw th tn (MaskBand s_fh sn) st \<and>
         entered (trace (snd (raster_copy s_fh sx sy sw sh sn t_fh tx ty tw th tn nodata st))) =
           entered (trace st) @ [WithMask]) \<and>
      (MaskFlags a = GMF_ALL_VALID \<and> ColorInterpretation a = GCI_AlphaBand \<longrightarrow>
         raster_copy s_fh sx sy sw sh sn t_fh tx ty tw th tn nodata st =
           raster_copy_with_mask s_fh sx sy sw sh sn t_fh tx ty tw th tn s_band st \<and>
         s_band = RasterBand s_fh sn \<and>
         entered (trace (snd (raster_copy s_fh sx sy sw sh sn t_fh tx ty tw th tn nodata st))) =
           entered (trace st) @ [WithMask]) \<and>
      (MaskFlags a = GMF_ALL_VALID \<and> ColorInterpretation a \<noteq> GCI_AlphaBand \<longrightarrow>
         raster_copy s_fh sx sy sw sh sn t_fh tx ty tw th tn nodata st =
           raster_copy_plain s_fh sx sy sw sh sn t_fh tx ty tw th tn st \<and>
         entered (trace (snd (raster_copy s_fh sx sy sw sh sn t_fh tx ty tw th tn nodata st))) =
           entered (trace st) @ [Plain]))"
proof -
  have ref: "s_band = RasterBand s_fh sn" if "GetRasterBand st s_fh sn = Some (s_band, a)" for s_band a
    using that by (auto simp: GetRasterBand_def split: option.splits if_splits)
  show ?thesis
    by (auto simp: raster_copy_def Let_def entered_raster_copy_with_nodata
          entered_raster_copy_with_mask entered_raster_copy_plain dest: ref)
qed

theorem raster_copy_strategy_precedence_witness:
  "raster_copy ''src.tif'' 0 0 2 1 1 ''dst.tif'' 0 0 2 1 1 (Some (Num 9)) copy_state =
     raster_copy_with_nodata ''src.tif'' 0 0 2 1 1 ''dst.tif'' 0 0 2 1 1 (Num 9) copy_state \<and>
   entered (trace (snd (raster_copy ''src.tif'' 0 0 2 1 1 ''dst.tif'' 0 0 2 1 1
                          (Some (Num 9)) copy_state))) = [WithNodata] \<and>
   raster_copy ''src.tif'' 0 0 2 1 1 ''dst.tif'' 0 0 2 1 1 None copy_state =
     raster_copy_with_mask ''src.tif'' 0 0 2 1 1 ''dst.tif'' 0 0 2 1 1
       (MaskBand ''src.tif'' 1) copy_state \<and>
   entered (trace (snd (raster_copy ''src.tif'' 0 0 2 1 1 ''dst.tif'' 0 0 2 1 1
                          None copy_state))) = [WithMask] \<and>
   raster_copy ''alpha.tif'' 0 0 2 1 1 ''dst.tif'' 0 0 2 1 1 None copy_state =
     raster_copy_with_mask ''alpha.tif'' 0 0 2 1 1 ''dst.tif'' 0 0 2 1 1
       (RasterBand ''alpha.tif'' 1) copy_state \<and>
   entered (trace (snd (raster_copy ''alpha.tif'' 0 0 2 1 1 ''dst.tif'' 0 0 2 1 1
                          None copy_state))) = [WithMask] \<and>
   raster_copy ''dst.tif'' 0 0 2 1 1 ''dst.tif'' 0 0 2 1 1 None copy_state =
     raster_copy_plain ''dst.tif'' 0 0 2 1 1 ''dst.tif'' 0 0 2 1 1 copy_state \<and>
   entered (trace (snd (raster_copy ''dst.tif'' 0 0 2 1 1 ''dst.tif'' 0 0 2 1 1
                          None copy_state))) = [Plain]"
proof -
  have tr: "trace copy_state = []" by (simp add: copy_state_def)
  have g1: "GetRasterBand copy_state ''src.tif'' 1 =
              Some (RasterBand ''src.tif'' 1, hd (raster_bands src_ds))"
    by (simp add: GetRasterBand_def copy_state_def src_ds_def)
  have g2: "GetRasterBand copy_state ''alpha.tif'' 1 =
              Some (RasterBand ''alpha.tif'' 1, hd (raster_bands alpha_ds))"
    by (simp add: GetRasterBand_def copy_state_def alpha_ds_def)
  have g3: "GetRasterBand copy_state ''dst.tif'' 1 =
              Some (RasterBand ''dst.tif'' 1, flat_band 2 1 5)"
    by (simp add: GetRasterBand_def copy_state_def tile_def)
  have f1: "MaskFlags (hd (raster_bands src_ds)) \<noteq> GMF_ALL_VALID"
    by (simp add: src_ds_def GMF_ALL_VALID_def)
  have f2: "MaskFlags (hd (raster_bands alpha_ds)) = GMF_ALL_VALID"
    "ColorInterpretation (hd (raster_bands alpha_ds)) = GCI_AlphaBand"
    by (simp_all add: alpha_ds_def)
  have f3: "MaskFlags (flat_band 2 1 5) = GMF_ALL_VALID"
    "ColorInterpretation (flat_band 2 1 5) \<noteq> GCI_AlphaBand"
    by (simp_all add: flat_band_def GCI_AlphaBand_def)
  have c1: "raster_copy ''src.tif'' 0 0 2 1 1 ''dst.tif'' 0 0 2 1 1 (Some (Num 9)) copy_state =
     raster_copy_with_nodata ''src.tif'' 0 0 2 1 1 ''dst.tif'' 0 0 2 1 1 (Num 9) copy_state \<and>
     entered (trace (snd (raster_copy ''src.tif'' 0 0 2 1 1 ''dst.tif'' 0 0 2 1 1
                          (Some (Num 9)) copy_state))) = entered (trace copy_state) @ [WithNodata]"
    using raster_copy_strategy_precedence[of "Some (Num 9)" "''src.tif''" 0 0 2 1 1
            "''dst.tif''" 0 0 2 1 1 copy_state]
    by blast
  have c2: "raster_copy ''src.tif'' 0 0 2 1 1 ''dst.tif'' 0 0 2 1 1 None copy_state =
     raster_copy_with_mask ''src.tif'' 0 0 2 1 1 ''dst.tif'' 0 0 2 1 1
       (MaskBand ''src.tif'' 1) copy_state \<and>
     entered (trace (snd (raster_copy ''src.tif'' 0 0 2 1 1 ''dst.tif'' 0 0 2 1 1
                          None copy_state))) = entered (trace copy_state) @ [WithMask]"
    using raster_copy_strategy_precedence[of None "''src.tif''" 0 0 2 1 1
            "''dst.tif''" 0 0 2 1 1 copy_state] g1 f1
    by blast
  have c3: "raster_copy ''alpha.tif'' 0 0 2 1 1 ''dst.tif'' 0 0 2 1 1 None copy_state =
     raster_copy_with_mask ''alpha.tif'' 0 0 2 1 1 ''dst.tif'' 0 0 2 1 1
       (RasterBand ''alpha.tif'' 1) copy_state \<and>
     entered (trace (snd (raster_copy ''alpha.tif'' 0 0 2 1 1 ''dst.tif'' 0 0 2 1 1
                          None copy_state))) = entered (trace copy_state) @ [WithMask]"
    using raster_copy_strategy_precedence[of None "''alpha.tif''" 0 0 2 1 1
            "''dst.tif''" 0 0 2 1 1 copy_state] g2 f2
    by blast
  have c4: "raster_copy ''dst.tif'' 0 0 2 1 1 ''dst.tif'' 0 0 2 1 1 None copy_state =
     raster_copy_plain ''dst.tif'' 0 0 2 1 1 ''dst.tif'' 0 0 2 1 1 copy_state \<and>
     entered (trace (snd (raster_copy ''dst.tif'' 0 0 2 1 1 ''dst.tif'' 0 0 2 1 1
                          None copy_state))) = entered (trace copy_state) @ [Plain]"
    using raster_copy_strategy_precedence[of None "''dst.tif''" 0 0 2 1 1
            "''dst.tif''" 0 0 2 1 1 copy_state] g3 f3
    by blast
  have e: "entered (trace copy_state) @ [x] = [x]" for x
    by (simp add: tr)
  show ?thesis
    using c1 c2 c3 c4 unfolding e by blast
qed

section \<open>The pixel windows of \<^verbatim>\<open>copy_into\<close>\<close>

lemma bindr_Return [simp]: "bindr (Return v) f = f v"
  by (simp add: bindr_def)

lemma bindr_Raise [simp]: "bindr (Raise e) f = Raise e"
  by (simp add: bindr_def)

lemma fdiv_nonzero: "b \<noteq> 0 \<Longrightarrow> fdiv a b = Return (rnd (a / b))"
  by (simp add: fdiv_def)






text \<open>
  Claim C7. When the intersection is empty (\<open>ulx \<ge> lrx\<close>, or the y-extent is degenerate
  for the sign of the target's pixel height), or the target window or the source window
  comes out with a size below 1 on either axis, \<^verbatim>\<open>copy_into\<close> returns 1 and leaves the
  state as it is: no dataset changes and the trace gains no read and no write.
\<close>

theorem copy_into_degenerate_is_noop:
  assumes t: "files st t_fh = Some t_ds"
    and ov: "overlap_rect self t_ds = (x0, y0, x1, y1)"
    and deg: "x0 \<ge> x1 \<or>
              (gt5 (GeoTransform t_ds) < 0 \<and> y0 \<le> y1) \<or>
              (gt5 (GeoTransform t_ds) > 0 \<and> y0 \<ge> y1) \<or>
              (\<exists>xoff yoff w h. target_window (GeoTransform t_ds) (x0, y0, x1, y1)
                                  = Return (xoff, yoff, w, h) \<and> (w < 1 \<or> h < 1)) \<or>
              (\<exists>tw xoff yoff w h.
                  target_window (GeoTransform t_ds) (x0, y0, x1, y1) = Return tw \<and>
                  source_window (geotransform self) (x0, y0, x1, y1)
                    = Return (xoff, yoff, w, h) \<and> (w < 1 \<or> h < 1))"
  shows "copy_into self t_fh s_band t_band nodata_arg st = (Return 1, st)"
  using t ov deg
  by (auto simp: copy_into_def Let_def no_intersection_def split: result.splits prod.splits)

theorem copy_into_degenerate_is_noop_witness:
  "files copy_state ''dst.tif'' = Some (tile 0 1 2 1 5) \<and>
   overlap_rect far_fi (tile 0 1 2 1 5) = (10, 1, 2, 0) \<and>
   copy_into far_fi ''dst.tif'' 1 1 None copy_state = (Return 1, copy_state) \<and>
   overlap_rect sliver_fi (tile 0 1 2 1 5) = (31 / 16, 1, 2, 0) \<and>
   target_window (GeoTransform (tile 0 1 2 1 5)) (31 / 16, 1, 2, 0) = Return (2, 0, 0, 1) \<and>
   copy_into sliver_fi ''dst.tif'' 1 1 (Some (Num 9)) copy_state = (Return 1, copy_state)"
proof -
  have t: "files copy_state ''dst.tif'' = Some (tile 0 1 2 1 5)"
    by (simp add: copy_state_def)
  have ov1: "overlap_rect far_fi (tile 0 1 2 1 5) = (10, 1, 2, 0)"
    by code_simp
  have ov2: "overlap_rect sliver_fi (tile 0 1 2 1 5) = (31 / 16, 1, 2, 0)"
    by code_simp
  have tw2: "target_window (GeoTransform (tile 0 1 2 1 5)) (31 / 16, 1, 2, 0) = Return (2, 0, 0, 1)"
    by code_simp
  have r1: "copy_into far_fi ''dst.tif'' 1 1 None copy_state = (Return 1, copy_state)"
    by (rule copy_into_degenerate_is_noop[OF t ov1]) simp
  have r2: "copy_into sliver_fi ''dst.tif'' 1 1 (Some (Num 9)) copy_state = (Return 1, copy_state)"
    by (rule copy_into_degenerate_is_noop[OF t ov2]) (use tw2 in simp)
  show ?thesis using t ov1 ov2 tw2 r1 r2 by simp
qed

section \<open>The snap to the pixel grid\<close>

lemma align_extent_snaps:
  "px \<noteq> 0 \<Longrightarrow> py \<noteq> 0 \<Longrightarrow>
   align_extent (x0, y0, x1, y1) px py =
     Return (snap_down x0 px, snap_up y0 (- py), snap_up x1 px, snap_down y1 (- py))"
  by (simp add: align_extent_def fdiv_def snap_down_def snap_up_def)

lemma snap_down_exact:
  assumes "p \<noteq> 0" "exact_multiple (math_floor (rnd (v / p))) p"
  shows "snap_down (snap_down v p) p = snap_down v p"
proof -
  let ?k = "math_floor (rnd (v / p))"
  have a: "rnd (of_int ?k) = of_int ?k" and b: "rnd (of_int ?k * p) = of_int ?k * p"
    using assms(2) by (simp_all add: exact_multiple_def)
  have 1: "snap_down v p = of_int ?k * p"
    by (simp add: snap_down_def fmul_def float_of_int_def a b)
  have "rnd (of_int ?k * p / p) = of_int ?k" using assms(1) a by simp
  then have "math_floor (rnd (snap_down v p / p)) = ?k"
    unfolding 1 by (simp add: math_floor_def)
  then have "snap_down (snap_down v p) p = fmul (float_of_int ?k) p"
    by (simp add: snap_down_def[of "snap_down v p"])
  also have "\<dots> = snap_down v p" by (simp add: snap_down_def)
  finally show ?thesis .
qed

lemma snap_up_exact:
  assumes "p \<noteq> 0" "exact_multiple (math_ceil (rnd (v / p))) p"
  shows "snap_up (snap_up v p) p = snap_up v p"
proof -
  let ?k = "math_ceil (rnd (v / p))"
  have a: "rnd (of_int ?k) = of_int ?k" and b: "rnd (of_int ?k * p) = of_int ?k * p"
    using assms(2) by (simp_all add: exact_multiple_def)
  have 1: "snap_up v p = of_int ?k * p"
    by (simp add: snap_up_def fmul_def float_of_int_def a b)
  have "rnd (of_int ?k * p / p) = of_int ?k" using assms(1) a by simp
  then have "math_ceil (rnd (snap_up v p / p)) = ?k"
    unfolding 1 by (simp add: math_ceil_def)
  then have "snap_up (snap_up v p) p = fmul (float_of_int ?k) p"
    by (simp add: snap_up_def[of "snap_up v p"])
  also have "\<dots> = snap_up v p" by (simp add: snap_up_def)
  finally show ?thesis .
qed

text \<open>
  Claim C9, as far as the code goes. For nonzero pixel sizes the snap maps \<open>ulx\<close> and
  \<open>lry\<close> down and \<open>lrx\<close> and \<open>uly\<close> up to a multiple of the step (\<open>pixelWidth\<close>, and
  \<open>-pixelHeight\<close> for y), and it is idempotent whenever the four snapped coordinates
  are computed without rounding: the integer index and its product with the step are
  binary64 numbers.
\<close>

theorem align_extent_idempotent_when_exact:
  assumes "px \<noteq> 0" "py \<noteq> 0"
    and "exact_multiple (math_floor (rnd (x0 / px))) px"
    and "exact_multiple (math_ceil (rnd (x1 / px))) px"
    and "exact_multiple (math_floor (rnd (y1 / (- py)))) (- py)"
    and "exact_multiple (math_ceil (rnd (y0 / (- py)))) (- py)"
  shows "\<exists>r. align_extent (x0, y0, x1, y1) px py = Return r \<and>
             align_extent r px py = Return r \<and>
             r = (snap_down x0 px, snap_up y0 (- py), snap_up x1 px, snap_down y1 (- py))"
proof -
  have npy: "- py \<noteq> 0" using assms(2) by simp
  let ?r = "(snap_down x0 px, snap_up y0 (- py), snap_up x1 px, snap_down y1 (- py))"
  have "align_extent ?r px py =
          Return (snap_down (snap_down x0 px) px, snap_up (snap_up y0 (- py)) (- py),
                  snap_up (snap_up x1 px) px, snap_down (snap_down y1 (- py)) (- py))"
    by (rule align_extent_snaps[OF assms(1,2)])
  also have "\<dots> = Return ?r"
    by (simp only: snap_down_exact[OF assms(1) assms(3)] snap_up_exact[OF assms(1) assms(4)]
          snap_down_exact[OF npy assms(5)] snap_up_exact[OF npy assms(6)])
  finally show ?thesis
    using align_extent_snaps[OF assms(1,2)] by blast
qed

theorem align_extent_idempotent_when_exact_witness:
  "(1 / 2 :: rat) \<noteq> 0 \<and> (- 1 / 2 :: rat) \<noteq> 0 \<and>
   exact_multiple (math_floor (rnd ((21 / 4) / (1 / 2)))) (1 / 2) \<and>
   exact_multiple (math_ceil (rnd ((81 / 4) / (1 / 2)))) (1 / 2) \<and>
   exact_multiple (math_floor (rnd ((- 21 / 4) / (- (- 1 / 2))))) (- (- 1 / 2)) \<and>
   exact_multiple (math_ceil (rnd ((41 / 4) / (- (- 1 / 2))))) (- (- 1 / 2)) \<and>
   align_extent (21 / 4, 41 / 4, 81 / 4, - 21 / 4) (1 / 2) (- 1 / 2)
     = Return (5, 21 / 2, 41 / 2, - 11 / 2) \<and>
   align_extent (5, 21 / 2, 41 / 2, - 11 / 2) (1 / 2) (- 1 / 2)
     = Return (5, 21 / 2, 41 / 2, - 11 / 2)"
proof -
  have z: "(1 / 2 :: rat) \<noteq> 0" "(- 1 / 2 :: rat) \<noteq> 0" by simp_all
  have e1: "exact_multiple (math_floor (rnd ((21 / 4) / (1 / 2)))) (1 / 2)" by code_simp
  have e2: "exact_multiple (math_ceil (rnd ((81 / 4) / (1 / 2)))) (1 / 2)" by code_simp
  have e3: "exact_multiple (math_floor (rnd ((- 21 / 4) / (- (- 1 / 2))))) (- (- 1 / 2))"
    by code_simp
  have e4: "exact_multiple (math_ceil (rnd ((41 / 4) / (- (- 1 / 2))))) (- (- 1 / 2))"
    by code_simp
  have v: "(snap_down (21 / 4) (1 / 2), snap_up (41 / 4) (- (- 1 / 2)),
            snap_up (81 / 4) (1 / 2), snap_down (- 21 / 4) (- (- 1 / 2)))
           = (5, 21 / 2, 41 / 2, - 11 / 2)"
    by code_simp
  from align_extent_idempotent_when_exact[OF z e1 e2 e3 e4]
  have "align_extent (21 / 4, 41 / 4, 81 / 4, - 21 / 4) (1 / 2) (- 1 / 2)
          = Return (5, 21 / 2, 41 / 2, - 11 / 2) \<and>
        align_extent (5, 21 / 2, 41 / 2, - 11 / 2) (1 / 2) (- 1 / 2)
          = Return (5, 21 / 2, 41 / 2, - 11 / 2)"
    unfolding v by blast
  then show ?thesis using z e1 e2 e3 e4 by blast
qed

text \<open>
  Without that condition the claim fails in binary64. With \<open>ulx = 5.0\<close> and
  \<open>pixelWidth = 1.5000000000000013\<close>, the first snap gives \<open>ulx = 4.5000000000000036\<close>
  (the rounded \<open>3 * pixelWidth\<close>); dividing that by the pixel width rounds to
  \<open>2.9999999999999996\<close>, so the second snap gives \<open>ulx = 3.0000000000000027\<close>.
\<close>

theorem align_extent_not_idempotent_counterexample:
  "tap_psize \<noteq> 0 \<and>
   align_extent (5, 10, 20, - 5) tap_psize (- 1) =
     Return (1266637395197953 / 281474976710656, 10, 5910974510923781 / 281474976710656, - 5) \<and>
   align_extent (1266637395197953 / 281474976710656, 10,
                 5910974510923781 / 281474976710656, - 5) tap_psize (- 1) =
     Return (3377699720527875 / 1125899906842624, 10, 5910974510923781 / 281474976710656, - 5) \<and>
   (1266637395197953 / 281474976710656 :: rat) \<noteq> 3377699720527875 / 1125899906842624"
  by code_simp

section \<open>What the copy loops leave alone\<close>

lemma same_geometry_refl [simp]: "same_geometry a a"
  by (simp add: same_geometry_def)

lemma same_geometry_trans: "same_geometry a b \<Longrightarrow> same_geometry b c \<Longrightarrow> same_geometry a c"
  by (simp add: same_geometry_def)

lemma bands_frame_refl: "files st' = files st \<Longrightarrow> bands_frame t_fh S st st'"
  by (auto simp: bands_frame_def split: option.splits)

lemma bands_frame_trans:
  "bands_frame t_fh S st st1 \<Longrightarrow> bands_frame t_fh T st1 st2 \<Longrightarrow> bands_frame t_fh (S \<union> T) st st2"
  by (auto simp: bands_frame_def same_geometry_def split: option.splits)

lemma bands_frame_mono: "bands_frame t_fh S st st' \<Longrightarrow> S \<subseteq> T \<Longrightarrow> bands_frame t_fh T st st'"
  by (fastforce simp: bands_frame_def split: option.splits)

lemma bands_frame_log_event: "bands_frame t_fh S st (log_event e st)"
  by (simp add: bands_frame_refl)

lemma files_ReadAsArray:
  "ReadAsArray b x y w h bx by st = (r, st') \<Longrightarrow> files st' = files st"
  by (auto simp: ReadAsArray_def Let_def split: option.splits prod.splits if_splits)

lemma bands_frame_store_samples:
  assumes "1 \<le> n"
  shows "bands_frame t_fh {n} st (store_samples (RasterBand t_fh n) px st)"
proof -
  have "n - 1 \<noteq> m - 1" if "m \<noteq> n" "1 \<le> m" for m
    using that assms by arith
  then show ?thesis
    by (auto simp: bands_frame_def store_samples_def same_geometry_def nth_list_update_neq
          split: option.splits simp del: One_nat_def)
qed

lemma band_samples_RasterBand_range:
  "band_samples st (RasterBand fh n) = Some (ds, px) \<Longrightarrow> 1 \<le> n \<and> n \<le> length (raster_bands ds)"
  by (auto simp: band_samples_def GetRasterBand_def split: option.splits if_splits)

lemma bands_frame_WriteRaster:
  "WriteRaster (RasterBand t_fh n) x y w h d st = (r, st') \<Longrightarrow> bands_frame t_fh {n} st st'"
proof -
  assume a: "WriteRaster (RasterBand t_fh n) x y w h d st = (r, st')"
  have 1: "bands_frame t_fh {n} st (log_event e st)" for e
    by (rule bands_frame_log_event)
  have 2: "bands_frame t_fh {n} (log_event e st) (store_samples (RasterBand t_fh n) px (log_event e st))"
    if "1 \<le> n" for e px by (rule bands_frame_store_samples[OF that])
  have 3: "bands_frame t_fh {n} st (store_samples (RasterBand t_fh n) px (log_event e st))"
    if "1 \<le> n" for e px
    using bands_frame_trans[OF 1 2[OF that]] by simp
  from a show ?thesis
    by (auto simp: WriteRaster_def Let_def 1 3 split: option.splits prod.splits if_splits
          dest: band_samples_RasterBand_range)
qed

lemma bands_frame_WriteArray:
  "WriteArray (RasterBand t_fh n) a x y st = (r, st') \<Longrightarrow> bands_frame t_fh {n} st st'"
  by (simp add: WriteArray_def bands_frame_WriteRaster)

lemma GetRasterBand_ref:
  "GetRasterBand st fh n = Some (b, a) \<Longrightarrow> b = RasterBand fh n"
  by (auto simp: GetRasterBand_def split: option.splits if_splits)

lemma bands_frame_files_eq:
  "files st1 = files st \<Longrightarrow> bands_frame t_fh S st1 st' \<Longrightarrow> bands_frame t_fh S st st'"
  by (simp add: bands_frame_def)

lemma bands_frame_raster_copy_with_nodata:
  "raster_copy_with_nodata s_fh sx sy sw sh sn t_fh tx ty tw th tn nd st = (r, st') \<Longrightarrow>
   bands_frame t_fh {tn} st st'"
  unfolding raster_copy_with_nodata_def Let_def
  by (auto split: option.splits prod.splits result.splits
        dest!: files_ReadAsArray GetRasterBand_ref bands_frame_WriteArray
        intro: bands_frame_files_eq bands_frame_refl)

lemma bands_frame_raster_copy_with_mask:
  "raster_copy_with_mask s_fh sx sy sw sh sn t_fh tx ty tw th tn m st = (r, st') \<Longrightarrow>
   bands_frame t_fh {tn} st st'"
  unfolding raster_copy_with_mask_def Let_def
  by (auto split: option.splits prod.splits result.splits
        dest!: files_ReadAsArray GetRasterBand_ref bands_frame_WriteArray
        intro: bands_frame_files_eq bands_frame_refl)

lemma bands_frame_raster_copy_plain:
  "raster_copy_plain s_fh sx sy sw sh sn t_fh tx ty tw th tn st = (r, st') \<Longrightarrow>
   bands_frame t_fh {tn} st st'"
  unfolding raster_copy_plain_def Let_def ReadRaster_def
  by (auto split: option.splits prod.splits result.splits
        dest!: files_ReadAsArray GetRasterBand_ref bands_frame_WriteRaster
        intro: bands_frame_files_eq bands_frame_refl)

lemma bands_frame_raster_copy:
  "raster_copy s_fh sx sy sw sh sn t_fh tx ty tw th tn nodata st = (r, st') \<Longrightarrow>
   bands_frame t_fh {tn} st st'"
  unfolding raster_copy_def Let_def
  by (auto split: option.splits prod.splits if_splits
        intro: bands_frame_raster_copy_with_nodata bands_frame_raster_copy_with_mask
          bands_frame_raster_copy_plain bands_frame_refl)

lemma bands_frame_copy_into:
  "copy_into fi t_fh sb tb nodata st = (r, st') \<Longrightarrow> bands_frame t_fh {tb} st st'"
  unfolding copy_into_def Let_def
  by (auto split: option.splits prod.splits result.splits if_splits
        intro: bands_frame_raster_copy bands_frame_refl)

lemma bands_frame_copy_bands:
  "copy_bands fi t_fh ks st = (r, st') \<Longrightarrow> bands_frame t_fh (set ks) st st'"
proof (induction ks arbitrary: st)
  case Nil
  then show ?case by (simp add: bands_frame_refl)
next
  case (Cons k ks)
  obtain r1 st1 where c: "copy_into fi t_fh k k run_merge_nodata st = (r1, st1)"
    by (cases "copy_into fi t_fh k k run_merge_nodata st") auto
  have f1: "bands_frame t_fh {k} st st1" by (rule bands_frame_copy_into[OF c])
  show ?case
  proof (cases r1)
    case (Return v)
    with Cons.prems c have "copy_bands fi t_fh ks st1 = (r, st')" by simp
    from bands_frame_trans[OF f1 Cons.IH[OF this]] show ?thesis by simp
  next
    case (Raise e)
    with Cons.prems c have "st' = st1" by simp
    with f1 show ?thesis by (auto intro: bands_frame_mono)
  qed
qed

lemma bands_frame_copy_files:
  "copy_files fis t_fh nb st = (r, st') \<Longrightarrow> bands_frame t_fh UNIV st st'"
proof (induction fis arbitrary: st)
  case Nil
  then show ?case by (simp add: bands_frame_refl)
next
  case (Cons fi fis)
  obtain r1 st1 where c: "copy_bands fi t_fh [1..<Suc nb] st = (r1, st1)"
    by (cases "copy_bands fi t_fh [1..<Suc nb] st") auto
  have f1: "bands_frame t_fh UNIV st st1"
    using bands_frame_copy_bands[OF c] by (auto intro: bands_frame_mono)
  show ?case
  proof (cases r1)
    case (Return v)
    with Cons.prems c have "copy_files fis t_fh nb st1 = (r, st')"
      by (simp add: createonly_def)
    from bands_frame_trans[OF f1 Cons.IH[OF this]] show ?thesis by simp
  next
    case (Raise e)
    with Cons.prems c have "st' = st1" by (simp add: createonly_def)
    with f1 show ?thesis by simp
  qed
qed

section \<open>Collecting the tile descriptors\<close>


lemma init_from_name_Some:
  "files st n = Some ds \<Longrightarrow> raster_bands ds \<noteq> [] \<Longrightarrow>
   init_from_name st n = Return (Some (describe n ds))"
  by (cases "raster_bands ds")
     (simp_all add: init_from_name_def GetRasterBand_def describe_def Let_def)

lemma init_from_name_cases:
  "init_from_name st n = Return (Some fi) \<Longrightarrow>
   \<exists>ds. files st n = Some ds \<and> raster_bands ds \<noteq> [] \<and> fi = describe n ds"
  by (cases "files st n")
     (auto simp: init_from_name_def GetRasterBand_def describe_def Let_def
        split: option.splits if_splits)



lemma collect_fileinfos_members:
  "collect_fileinfos st names acc = Return fis \<Longrightarrow> fi \<in> set fis \<Longrightarrow>
   fi \<in> set acc \<or>
   (\<exists>ds. files st (filename fi) = Some ds \<and> raster_bands ds \<noteq> [] \<and>
         fi = describe (filename fi) ds)"
proof (induction names arbitrary: acc)
  case Nil
  then show ?case by simp
next
  case (Cons n names)
  show ?case
  proof (cases "init_from_name st n")
    case (Raise e)
    with Cons.prems show ?thesis by simp
  next
    case (Return o1)
    show ?thesis
    proof (cases o1)
      case None
      with Return Cons show ?thesis by simp
    next
      case (Some fi1)
      with Return Cons.prems have "collect_fileinfos st names (acc @ [fi1]) = Return fis" by simp
      from Cons.IH[OF this Cons.prems(2)]
      have "fi \<in> set acc \<or> fi = fi1 \<or>
            (\<exists>ds. files st (filename fi) = Some ds \<and> raster_bands ds \<noteq> [] \<and>
                  fi = describe (filename fi) ds)" by auto
      moreover from init_from_name_cases[of st n fi1] Return Some
      obtain ds where "files st n = Some ds" "raster_bands ds \<noteq> []" "fi1 = describe n ds"
        by auto
      then have "files st (filename fi1) = Some ds \<and> raster_bands ds \<noteq> [] \<and>
                 fi1 = describe (filename fi1) ds"
        by (simp add: describe_def)
      ultimately show ?thesis by blast
    qed
  qed
qed

lemma names_to_fileinfos_members:
  "names_to_fileinfos st names = Return fis \<Longrightarrow> fi \<in> set fis \<Longrightarrow>
   \<exists>ds. files st (filename fi) = Some ds \<and> raster_bands ds \<noteq> [] \<and>
        fi = describe (filename fi) ds"
  using collect_fileinfos_members[of st names "[]" fis fi] by (simp add: names_to_fileinfos_def)

section \<open>Which exceptions the copy phase can raise\<close>
















lemma init_from_name_error: "init_from_name st n = Raise e \<Longrightarrow> e = AttributeError"
  by (auto simp: init_from_name_def Let_def split: option.splits)

lemma collect_fileinfos_error:
  "collect_fileinfos st names acc = Raise e \<Longrightarrow> e = AttributeError"
proof (induction names arbitrary: acc)
  case Nil
  then show ?case by simp
next
  case (Cons n names)
  then show ?case
    by (auto split: result.splits option.splits dest: init_from_name_error)
qed

section \<open>The output \<^verbatim>\<open>run_merge\<close> creates\<close>

lemma run_merge_fresh:
  assumes "driver_error st out = None" "files st out = None"
    and "names_to_fileinfos st names = Return (fi0 # fis)"
  shows "run_merge names out st =
     (case output_size (union_extent fi0 (fi0 # fis))
             (planned_geotransform fi0 (union_extent fi0 (fi0 # fis))) of
        Raise e \<Rightarrow> (Raise e, st)
      | Return (w, h) \<Rightarrow>
          (case Driver_Create out w h (bands fi0) (band_type fi0) st of
             None \<Rightarrow> (Raise SystemExit, st)
           | Some st1 \<Rightarrow>
               copy_files (fi0 # fis) out (bands fi0)
                 (SetProjection out (projection fi0)
                    (SetGeoTransform out
                       (planned_geotransform fi0 (union_extent fi0 (fi0 # fis))) st1))))"
  using assms
  by (simp add: run_merge_def bTargetAlignedPixels_def Let_def planned_geotransform_def
        split: prod.splits result.splits option.splits)

lemma create_and_set:
  assumes "1 \<le> w" "1 \<le> h" "\<not> create_refused st out"
  shows "\<exists>st1. Driver_Create out w h nb dt st = Some st1 \<and>
               SetProjection out p (SetGeoTransform out g st1) =
                 st\<lparr>files := (files st)(out \<mapsto> created_dataset w h nb dt g p)\<rparr>"
  using assms
  by (simp add: Driver_Create_def SetGeoTransform_def SetProjection_def created_dataset_def)


lemma union_extent_fold:
  "foldl (\<lambda>(a, b, c, d) fi.
            (min a (ulx fi), max b (uly fi), max c (lrx fi), min d (lry fi)))
         (a0, b0, c0, d0) fis =
   (Min (insert a0 (ulx ` set fis)), Max (insert b0 (uly ` set fis)),
    Max (insert c0 (lrx ` set fis)), Min (insert d0 (lry ` set fis)))"
proof (induction fis arbitrary: a0 b0 c0 d0)
  case Nil
  then show ?case by simp
next
  case (Cons fi fis)
  have 1: "Min (insert (min a0 (ulx fi)) (ulx ` set fis)) = Min (insert a0 (ulx ` set (fi # fis)))"
    by (cases "fis = []") (simp_all add: min.assoc min.commute min.left_commute)
  have 2: "Max (insert (max b0 (uly fi)) (uly ` set fis)) = Max (insert b0 (uly ` set (fi # fis)))"
    by (cases "fis = []") (simp_all add: max.assoc max.commute max.left_commute)
  have 3: "Max (insert (max c0 (lrx fi)) (lrx ` set fis)) = Max (insert c0 (lrx ` set (fi # fis)))"
    by (cases "fis = []") (simp_all add: max.assoc max.commute max.left_commute)
  have 4: "Min (insert (min d0 (lry fi)) (lry ` set fis)) = Min (insert d0 (lry ` set (fi # fis)))"
    by (cases "fis = []") (simp_all add: min.assoc min.commute min.left_commute)
  show ?case
    using Cons.IH[of "min a0 (ulx fi)" "max b0 (uly fi)" "max c0 (lrx fi)" "min d0 (lry fi)"]
    by (simp only: foldl_Cons prod.case 1 2 3 4)
qed

lemma union_extent_Min_Max:
  "union_extent fi0 (fi0 # fis) =
     (Min (ulx ` set (fi0 # fis)), Max (uly ` set (fi0 # fis)),
      Max (lrx ` set (fi0 # fis)), Min (lry ` set (fi0 # fis)))"
  unfolding union_extent_def union_extent_fold by simp

lemma output_size_formula:
  "gt1 g \<noteq> 0 \<Longrightarrow> gt5 g \<noteq> 0 \<Longrightarrow>
   output_size (x0, y0, x1, y1) g =
     Return (trunc_coord x1 x0 (gt1 g) lit_0_5, trunc_coord y1 y0 (gt5 g) lit_0_5)"
  by (simp add: output_size_def fdiv_nonzero trunc_coord_def)

lemma run_merge_created:
  assumes drv: "driver_error st out = None" and fresh: "files st out = None"
    and coll: "names_to_fileinfos st names = Return (fi0 # fis)"
    and ext: "union_extent fi0 (fi0 # fis) = (x0, y0, x1, y1)"
    and nz: "gt1 (geotransform fi0) \<noteq> 0" "gt5 (geotransform fi0) \<noteq> 0"
    and w: "w = trunc_coord x1 x0 (gt1 (geotransform fi0)) lit_0_5"
    and h: "h = trunc_coord y1 y0 (gt5 (geotransform fi0)) lit_0_5"
    and ok: "1 \<le> w" "1 \<le> h" "\<not> create_refused st out"
  shows "run_merge names out st =
           copy_files (fi0 # fis) out (bands fi0)
             (st\<lparr>files := (files st)(out \<mapsto>
                  created_dataset w h (bands fi0) (band_type fi0)
                    (planned_geotransform fi0 (x0, y0, x1, y1)) (projection fi0))\<rparr>)"
proof -
  let ?g = "planned_geotransform fi0 (x0, y0, x1, y1)"
  have os: "output_size (x0, y0, x1, y1) ?g = Return (w, h)"
    using nz by (simp add: output_size_formula planned_geotransform_def w h)
  from create_and_set[OF ok, of "bands fi0" "band_type fi0" "projection fi0" ?g]
  obtain st1 where c: "Driver_Create out w h (bands fi0) (band_type fi0) st = Some st1"
    and s: "SetProjection out (projection fi0) (SetGeoTransform out ?g st1) =
              st\<lparr>files := (files st)(out \<mapsto>
                 created_dataset w h (bands fi0) (band_type fi0) ?g (projection fi0))\<rparr>"
    by blast
  show ?thesis
    unfolding run_merge_fresh[OF drv fresh coll] ext os
    by (simp add: c s)
qed

text \<open>
  Claim C6. For a non-empty tile list and an output that does not exist yet, the extent
  \<^verbatim>\<open>run_merge\<close> plans is the least \<open>ulx\<close> and \<open>lry\<close> and the greatest \<open>uly\<close> and \<open>lrx\<close> over
  all tiles. With nonzero pixel sizes of the first tile and a size that \<^verbatim>\<open>Driver.Create\<close>
  accepts, the output dataset has origin \<open>(ulx, uly)\<close>, the first tile's pixel size, width
  \<^verbatim>\<open>int((lrx - ulx) / pixelWidth + 0.5)\<close> and height \<^verbatim>\<open>int((lry - uly) / pixelHeight + 0.5)\<close>
  with the signed pixel height, however the copy phase ends.
\<close>

theorem run_merge_output_geometry:
  assumes drv: "driver_error st out = None" and fresh: "files st out = None"
    and coll: "names_to_fileinfos st names = Return (fi0 # fis)"
    and nz: "gt1 (geotransform fi0) \<noteq> 0" "gt5 (geotransform fi0) \<noteq> 0"
    and w: "w = trunc_coord (Max (lrx ` set (fi0 # fis))) (Min (ulx ` set (fi0 # fis)))
                  (gt1 (geotransform fi0)) lit_0_5"
    and h: "h = trunc_coord (Min (lry ` set (fi0 # fis))) (Max (uly ` set (fi0 # fis)))
                  (gt5 (geotransform fi0)) lit_0_5"
    and ok: "1 \<le> w" "1 \<le> h" "\<not> create_refused st out"
  shows "union_extent fi0 (fi0 # fis) =
           (Min (ulx ` set (fi0 # fis)), Max (uly ` set (fi0 # fis)),
            Max (lrx ` set (fi0 # fis)), Min (lry ` set (fi0 # fis))) \<and>
         (\<exists>r st' ods.
            run_merge names out st = (r, st') \<and> files st' out = Some ods \<and>
            GeoTransform ods =
              \<lparr>gt0 = Min (ulx ` set (fi0 # fis)), gt1 = gt1 (geotransform fi0), gt2 = 0,
               gt3 = Max (uly ` set (fi0 # fis)), gt4 = 0, gt5 = gt5 (geotransform fi0)\<rparr> \<and>
            RasterXSize ods = w \<and> RasterYSize ods = h)"
proof -
  let ?ext = "(Min (ulx ` set (fi0 # fis)), Max (uly ` set (fi0 # fis)),
               Max (lrx ` set (fi0 # fis)), Min (lry ` set (fi0 # fis)))"
  let ?ds = "created_dataset w h (bands fi0) (band_type fi0)
               (planned_geotransform fi0 ?ext) (projection fi0)"
  let ?st2 = "st\<lparr>files := (files st)(out \<mapsto> ?ds)\<rparr>"
  have ext: "union_extent fi0 (fi0 # fis) = ?ext" by (rule union_extent_Min_Max)
  have run: "run_merge names out st = copy_files (fi0 # fis) out (bands fi0) ?st2"
    by (rule run_merge_created[OF drv fresh coll ext nz w h ok])
  obtain r st' where c: "copy_files (fi0 # fis) out (bands fi0) ?st2 = (r, st')"
    by (cases "copy_files (fi0 # fis) out (bands fi0) ?st2") auto
  from bands_frame_copy_files[OF c]
  obtain ods where o: "files st' out = Some ods" "same_geometry ods ?ds"
    by (auto simp: bands_frame_def)
  have "GeoTransform ods = planned_geotransform fi0 ?ext" "RasterXSize ods = w" "RasterYSize ods = h"
    using o(2) by (simp_all add: same_geometry_def created_dataset_def)
  then show ?thesis
    using ext run c o(1) by (simp add: planned_geotransform_def)
qed

text \<open>
  The instance of the claim: tiles over [0,10]x[0,10] and [5,20]x[-5,10] at pixel size 1
  give a 20x15 output with origin (0, 10), which covers exactly [0,20]x[-5,10].
\<close>

theorem run_merge_output_geometry_witness:
  "driver_error union_tiles ''out.tif'' = None \<and> files union_tiles ''out.tif'' = None \<and>
   names_to_fileinfos union_tiles [''t1.tif'', ''t2.tif''] =
     Return [describe ''t1.tif'' (tile 0 10 10 10 1), describe ''t2.tif'' (tile 5 10 15 15 2)] \<and>
   union_extent (describe ''t1.tif'' (tile 0 10 10 10 1))
     [describe ''t1.tif'' (tile 0 10 10 10 1), describe ''t2.tif'' (tile 5 10 15 15 2)]
     = (0, 10, 20, - 5) \<and>
   (\<exists>r st' ods.
      run_merge [''t1.tif'', ''t2.tif''] ''out.tif'' union_tiles = (r, st') \<and>
      files st' ''out.tif'' = Some ods \<and>
      GeoTransform ods = \<lparr>gt0 = 0, gt1 = 1, gt2 = 0, gt3 = 10, gt4 = 0, gt5 = - 1\<rparr> \<and>
      RasterXSize ods = 20 \<and> RasterYSize ods = 15 \<and>
      fadd (gt0 (GeoTransform ods)) (fmul (float_of_int (RasterXSize ods)) (gt1 (GeoTransform ods)))
        = 20 \<and>
      fadd (gt3 (GeoTransform ods)) (fmul (float_of_int (RasterYSize ods)) (gt5 (GeoTransform ods)))
        = - 5)"
proof -
  let ?f1 = "describe ''t1.tif'' (tile 0 10 10 10 1)"
  let ?f2 = "describe ''t2.tif'' (tile 5 10 15 15 2)"
  have drv: "driver_error union_tiles ''out.tif'' = None" by (simp add: union_tiles_def)
  have fresh: "files union_tiles ''out.tif'' = None" by (simp add: union_tiles_def)
  have coll: "names_to_fileinfos union_tiles [''t1.tif'', ''t2.tif''] = Return (?f1 # [?f2])"
    by (simp add: names_to_fileinfos_def init_from_name_Some union_tiles_def tile_def)
  have nz: "gt1 (geotransform ?f1) \<noteq> 0" "gt5 (geotransform ?f1) \<noteq> 0"
    by (simp_all add: describe_def tile_def north_up_def)
  have a: "Min (ulx ` set (?f1 # [?f2])) = 0" "Max (uly ` set (?f1 # [?f2])) = 10"
    "Max (lrx ` set (?f1 # [?f2])) = 20" "Min (lry ` set (?f1 # [?f2])) = - 5"
    by code_simp+
  have g: "gt1 (geotransform ?f1) = 1" "gt5 (geotransform ?f1) = - 1"
    by (simp_all add: describe_def tile_def north_up_def)
  have w: "20 = trunc_coord (Max (lrx ` set (?f1 # [?f2]))) (Min (ulx ` set (?f1 # [?f2])))
                  (gt1 (geotransform ?f1)) lit_0_5"
    unfolding a g by code_simp
  have h: "15 = trunc_coord (Min (lry ` set (?f1 # [?f2]))) (Max (uly ` set (?f1 # [?f2])))
                  (gt5 (geotransform ?f1)) lit_0_5"
    unfolding a g by code_simp
  have ok: "(1::int) \<le> 20" "(1::int) \<le> 15" "\<not> create_refused union_tiles ''out.tif''"
    by (simp_all add: union_tiles_def)
  have c1: "fadd 0 (fmul (float_of_int 20) 1) = 20" by code_simp
  have c2: "fadd 10 (fmul (float_of_int 15) (- 1)) = - 5" by code_simp
  from run_merge_output_geometry[OF drv fresh coll nz w h ok]
  show ?thesis
    unfolding a g using drv fresh coll c1 c2 by auto
qed

section \<open>Names that do not open\<close>



lemma Driver_Create_trace: "Driver_Create out w h nb dt st = Some st1 \<Longrightarrow> trace st1 = trace st"
  by (auto simp: Driver_Create_def split: if_splits)

lemma SetGeoTransform_trace [simp]: "trace (SetGeoTransform fh g st) = trace st"
  by (simp add: SetGeoTransform_def split: option.splits)

lemma SetProjection_trace [simp]: "trace (SetProjection fh p st) = trace st"
  by (simp add: SetProjection_def split: option.splits)

lemma run_merge_shape:
  "snd (run_merge names out st) = st \<and> (\<exists>e. fst (run_merge names out st) = Raise e) \<or>
   (\<exists>fi0 fis st1. names_to_fileinfos st names = Return (fi0 # fis) \<and>
       trace st1 = trace st \<and>
       run_merge names out st = copy_files (fi0 # fis) out (bands fi0) st1)"
proof (cases "driver_error st out")
  case (Some e)
  then show ?thesis by (simp add: run_merge_def)
next
  case drv: None
  show ?thesis
  proof (cases "names_to_fileinfos st names")
    case (Raise e)
    with drv show ?thesis by (simp add: run_merge_def)
  next
    case (Return file_infos)
    show ?thesis
    proof (cases file_infos)
      case Nil
      with drv Return show ?thesis by (simp add: run_merge_def)
    next
      case (Cons fi0 fis)
      with Return have coll: "names_to_fileinfos st names = Return (fi0 # fis)" by simp
      show ?thesis
      proof (cases "files st out")
        case (Some ds)
        with drv coll show ?thesis by (simp add: run_merge_def Let_def)
      next
        case fresh: None
        let ?ext = "union_extent fi0 (fi0 # fis)"
        let ?g = "planned_geotransform fi0 ?ext"
        note rm = run_merge_fresh[OF drv fresh coll]
        show ?thesis
        proof (cases "output_size ?ext ?g")
          case (Raise e)
          then show ?thesis unfolding rm by simp
        next
          case (Return wh)
          obtain w h where wh: "wh = (w, h)" by (cases wh) auto
          show ?thesis
          proof (cases "Driver_Create out w h (bands fi0) (band_type fi0) st")
            case None
            then show ?thesis unfolding rm Return wh by simp
          next
            case (Some st1)
            let ?st2 = "SetProjection out (projection fi0) (SetGeoTransform out ?g st1)"
            have "trace ?st2 = trace st" using Driver_Create_trace[OF Some] by simp
            moreover have "run_merge names out st = copy_files (fi0 # fis) out (bands fi0) ?st2"
              unfolding rm Return wh by (simp add: Some del: copy_files.simps)
            ultimately show ?thesis using coll by blast
          qed
        qed
      qed
    qed
  qed
qed


text \<open>Both orders of the two tiles, run once.\<close>

lemma run_ab:
  "(case run_merge [''a.tif'', ''b.tif''] ''out.tif'' two_tiles of
      (r, s) \<Rightarrow> r = Return () \<and>
        files s ''out.tif'' = Some (mosaic [[Num 5, Num 7, Num 7], [Num 5, Num 7, Num 7]]) \<and>
        trace s = [Enter Plain, ReadWindow (RasterBand ''a.tif'' 1) 0 0 2 2,
                   WriteWindow (RasterBand ''out.tif'' 1) 0 0 2 2,
                   Enter Plain, ReadWindow (RasterBand ''b.tif'' 1) 0 0 2 2,
                   WriteWindow (RasterBand ''out.tif'' 1) 1 0 2 2])"
  by code_simp





section \<open>The nodata argument of \<^verbatim>\<open>run_merge\<close>\<close>

lemma entered_copy_into_None:
  "copy_into fi t_fh sb tb None st = (r, st') \<Longrightarrow>
   \<exists>es. entered (trace st') = entered (trace st) @ es \<and> set es \<subseteq> {Plain, WithMask}"
proof -
  assume a: "copy_into fi t_fh sb tb None st = (r, st')"
  have rc: "\<exists>es. entered (trace (snd (raster_copy s sx sy sw sh sn t tx ty tw th tn None st)))
                = entered (trace st) @ es \<and> set es \<subseteq> {Plain, WithMask}"
    for s sx sy sw sh sn t tx ty tw th tn
    by (auto simp: raster_copy_def Let_def entered_raster_copy_with_mask
          entered_raster_copy_plain split: option.splits)
  have same: "\<exists>es. entered (trace st) = entered (trace st) @ es \<and> set es \<subseteq> {Plain, WithMask}"
    by (rule exI[of _ "[]"]) simp
  from a show ?thesis
    unfolding copy_into_def Let_def
    using rc same
    by (auto split: option.splits result.splits prod.splits if_splits
          simp del: entered_append) (metis snd_conv)+
qed

lemma entered_copy_bands:
  "copy_bands fi t_fh ks st = (r, st') \<Longrightarrow>
   \<exists>es. entered (trace st') = entered (trace st) @ es \<and> set es \<subseteq> {Plain, WithMask}"
proof (induction ks arbitrary: st)
  case Nil
  then show ?case by simp
next
  case (Cons k ks)
  obtain r1 st1 where c: "copy_into fi t_fh k k None st = (r1, st1)"
    by (cases "copy_into fi t_fh k k None st") auto
  from entered_copy_into_None[OF c]
  obtain es1 where e1: "entered (trace st1) = entered (trace st) @ es1" "set es1 \<subseteq> {Plain, WithMask}"
    by blast
  show ?case
  proof (cases r1)
    case (Return v)
    with Cons.prems c have "copy_bands fi t_fh ks st1 = (r, st')"
      by (simp add: run_merge_nodata_def)
    from Cons.IH[OF this] obtain es2 where
      "entered (trace st') = entered (trace st1) @ es2" "set es2 \<subseteq> {Plain, WithMask}" by blast
    with e1 have "entered (trace st') = entered (trace st) @ (es1 @ es2) \<and>
                  set (es1 @ es2) \<subseteq> {Plain, WithMask}" by simp
    then show ?thesis by blast
  next
    case (Raise e)
    with Cons.prems c have "st' = st1" by (simp add: run_merge_nodata_def)
    with e1 show ?thesis by blast
  qed
qed

lemma entered_copy_files:
  "copy_files fis t_fh nb st = (r, st') \<Longrightarrow>
   \<exists>es. entered (trace st') = entered (trace st) @ es \<and> set es \<subseteq> {Plain, WithMask}"
proof (induction fis arbitrary: st)
  case Nil
  then show ?case by simp
next
  case (Cons fi fis)
  obtain r1 st1 where c: "copy_bands fi t_fh [1..<Suc nb] st = (r1, st1)"
    by (cases "copy_bands fi t_fh [1..<Suc nb] st") auto
  from entered_copy_bands[OF c]
  obtain es1 where e1: "entered (trace st1) = entered (trace st) @ es1" "set es1 \<subseteq> {Plain, WithMask}"
    by blast
  show ?case
  proof (cases r1)
    case (Return v)
    with Cons.prems c have "copy_files fis t_fh nb st1 = (r, st')"
      by (simp add: createonly_def)
    from Cons.IH[OF this] obtain es2 where
      "entered (trace st') = entered (trace st1) @ es2" "set es2 \<subseteq> {Plain, WithMask}" by blast
    with e1 have "entered (trace st') = entered (trace st) @ (es1 @ es2) \<and>
                  set (es1 @ es2) \<subseteq> {Plain, WithMask}" by simp
    then show ?thesis by blast
  next
    case (Raise e)
    with Cons.prems c have "st' = st1" by (simp add: createonly_def)
    with e1 show ?thesis by blast
  qed
qed

text \<open>
  Claim C10. The nodata argument \<^verbatim>\<open>run_merge\<close> hands to every \<^verbatim>\<open>copy_into\<close> is \<^verbatim>\<open>None\<close>,
  and whatever the inputs and however the run ends, the copy routines it has entered
  are plain copies and mask composites only: \<^verbatim>\<open>raster_copy_with_nodata\<close> is never reached.
\<close>

theorem run_merge_never_uses_nodata:
  "run_merge_nodata = None \<and>
   (\<exists>es. entered (trace (snd (run_merge names out st))) = entered (trace st) @ es \<and>
         set es \<subseteq> {Plain, WithMask} \<and> WithNodata \<notin> set es)"
proof -
  have "\<exists>es. entered (trace (snd (run_merge names out st))) = entered (trace st) @ es \<and>
             set es \<subseteq> {Plain, WithMask}"
    using run_merge_shape[of names out st]
  proof (elim disjE conjE exE)
    assume "snd (run_merge names out st) = st"
    then have "entered (trace (snd (run_merge names out st))) = entered (trace st) @ [] \<and>
               set [] \<subseteq> {Plain, WithMask}" by simp
    then show ?thesis by blast
  next
    fix fi0 fis st1
    assume t: "trace st1 = trace st"
      and r: "run_merge names out st = copy_files (fi0 # fis) out (bands fi0) st1"
    obtain r1 st' where c: "copy_files (fi0 # fis) out (bands fi0) st1 = (r1, st')"
      by (cases "copy_files (fi0 # fis) out (bands fi0) st1") auto
    from entered_copy_files[OF c] t r c show ?thesis by simp
  qed
  then show ?thesis
    by (auto simp: run_merge_nodata_def)
qed

theorem run_merge_never_uses_nodata_witness:
  "entered (trace (snd (run_merge [''a.tif'', ''b.tif''] ''out.tif'' two_tiles))) = [Plain, Plain] \<and>
   (\<exists>es. entered (trace (snd (run_merge [''a.tif'', ''b.tif''] ''out.tif'' two_tiles)))
            = entered (trace two_tiles) @ es \<and> WithNodata \<notin> set es)"
proof -
  have "entered (trace (snd (run_merge [''a.tif'', ''b.tif''] ''out.tif'' two_tiles)))
          = [Plain, Plain]"
    using run_ab by (cases "run_merge [''a.tif'', ''b.tif''] ''out.tif'' two_tiles") auto
  then show ?thesis
    using run_merge_never_uses_nodata[of "[''a.tif'', ''b.tif'']" "''out.tif''" two_tiles]
    by blast
qed
section \<open>Later tiles overwrite earlier ones\<close>


lemma overlap_rect_cong:
  "GeoTransform a = GeoTransform b \<Longrightarrow> RasterXSize a = RasterXSize b \<Longrightarrow>
   RasterYSize a = RasterYSize b \<Longrightarrow> overlap_rect fi a = overlap_rect fi b"
  by (simp add: overlap_rect_def)













end
